theory Spec2Isabelle
  imports Complex_Main "HOL-Library.Sublist"
begin

section \<open>JavaScript values and library functions used by the pipeline\<close>

text \<open>
  Strings are lists of code units. The character classes of the source's regular
  expressions (\<^verbatim>\<open>\s\<close>, \<^verbatim>\<open>[a-z0-9]\<close>) and its case mapping are modelled on their ASCII
  range. Page numbers are \<open>int\<close>. A number that a generation call returns is a
  finite fraction, \<open>rat\<close> (the schema types reading minutes as \<^verbatim>\<open>z.number()\<close>). A
  number that the code computes with \<^verbatim>\<open>/\<close> and \<^verbatim>\<open>*\<close> is a \<open>js_number\<close>: the result of
  each operation is rounded to the nearest double, and it may be an infinity or
  \<^verbatim>\<open>NaN\<close>.
\<close>

datatype js_error = Thrown string

type_synonym 'a result = "js_error + 'a"

text \<open>\<^verbatim>\<open>try { body } catch { handler }\<close>: the handler replaces every thrown error.\<close>

definition try_catch :: "'a result \<Rightarrow> 'a result \<Rightarrow> 'a result" where
  "try_catch body handler = (case body of Inl e \<Rightarrow> handler | Inr v \<Rightarrow> Inr v)"

definition newline :: string where
  "newline = [CHR 0x0A]"

definition dquote :: string where
  "dquote = [CHR 0x22]"

text \<open>\<^verbatim>\<open>\s\<close> on ASCII: space, tab, line feed, vertical tab, form feed, carriage return.\<close>

definition is_space :: "char \<Rightarrow> bool" where
  "is_space c = (c \<in> set [CHR 0x20, CHR 0x09, CHR 0x0A, CHR 0x0B, CHR 0x0C, CHR 0x0D])"

text \<open>\<^verbatim>\<open>String.prototype.trim\<close>.\<close>

definition trim :: "string \<Rightarrow> string" where
  "trim s = rev (dropWhile is_space (rev (dropWhile is_space s)))"

text \<open>\<^verbatim>\<open>Array.prototype.join\<close>.\<close>

fun join :: "string \<Rightarrow> string list \<Rightarrow> string" where
  "join sep [] = []"
| "join sep [x] = x"
| "join sep (x # y # ys) = x @ sep @ join sep (y # ys)"

text \<open>
  \<^verbatim>\<open>slice(start, end)\<close> of arrays and strings: a negative index counts from the end,
  both indices are clamped to the length, and an empty range gives the empty list.
\<close>

definition js_slice :: "'a list \<Rightarrow> int \<Rightarrow> int \<Rightarrow> 'a list" where
  "js_slice xs start end =
     (let n = int (length xs);
          k = (if start < 0 then max (n + start) 0 else min start n);
          f = (if end < 0 then max (n + end) 0 else min end n)
      in take (nat (f - k)) (drop (nat k) xs))"

text \<open>\<^verbatim>\<open>slice(start)\<close>: the end defaults to the length.\<close>

definition js_slice_from :: "'a list \<Rightarrow> int \<Rightarrow> 'a list" where
  "js_slice_from xs start = js_slice xs start (int (length xs))"

text \<open>
  \<^verbatim>\<open>text.split(/\s+/)\<close>: the pieces between maximal runs of whitespace. A run at the
  start or at the end leaves an empty piece there, and the empty string gives one
  empty piece.
\<close>

function split_ws_from :: "string \<Rightarrow> string \<Rightarrow> string list" where
  "split_ws_from cur [] = [rev cur]"
| "split_ws_from cur (c # cs) =
     (if is_space c then rev cur # split_ws_from [] (dropWhile is_space cs)
      else split_ws_from (c # cur) cs)"
  by pat_completeness auto
termination
  by (relation "measure (\<lambda>(cur, s). length s)")
     (auto simp: length_dropWhile_le less_Suc_eq_le)

definition split_ws :: "string \<Rightarrow> string list" where
  "split_ws s = split_ws_from [] s"

text \<open>\<^verbatim>\<open>Math.round\<close>: the nearest integer, a half rounded up.\<close>

definition js_round :: "rat \<Rightarrow> int" where
  "js_round x = \<lfloor>x + 1 / 2\<rfloor>"

text \<open>\<^verbatim>\<open>Number.isInteger\<close> on a finite number.\<close>

definition is_integer :: "rat \<Rightarrow> bool" where
  "is_integer x = (of_int \<lfloor>x\<rfloor> = x)"

subsection \<open>Double-precision arithmetic\<close>

text \<open>
  The values of a JavaScript number, except that the two zeros are one value: a
  zero divisor or factor counts as \<open>+0\<close>.
\<close>

datatype js_number = Finite rat | PosInfinity | NegInfinity | NaN

definition pow2 :: "int \<Rightarrow> rat" where
  "pow2 e = (if 0 \<le> e then 2 ^ nat e else 1 / 2 ^ nat (- e))"

text \<open>The position of the leading bit: \<open>ilog2 n = \<lfloor>log\<^sub>2 n\<rfloor>\<close> for \<open>n \<ge> 1\<close>.\<close>

function ilog2 :: "int \<Rightarrow> nat" where
  "ilog2 n = (if n < 2 then 0 else Suc (ilog2 (n div 2)))"
  by pat_completeness auto
termination
  by (relation "measure nat") auto

text \<open>The binary exponent of a positive fraction: the \<open>e\<close> with \<open>2\<^sup>e \<le> x < 2\<^sup>e\<^sup>+\<^sup>1\<close>.\<close>

definition floor_log2 :: "rat \<Rightarrow> int" where
  "floor_log2 x =
     (if 1 \<le> x then int (ilog2 \<lfloor>x\<rfloor>)
      else - int (Suc (ilog2 (\<lceil>1 / x\<rceil> - 1))))"

definition round_half_even :: "rat \<Rightarrow> int" where
  "round_half_even x =
     (let f = \<lfloor>x\<rfloor>; d = x - of_int f
      in if d < 1 / 2 then f
         else if 1 / 2 < d then f + 1
         else if even f then f else f + 1)"

text \<open>
  Rounding of an exact result to binary64, to nearest with ties to even: 53
  significant bits, the exponent not below \<open>-1022\<close> (below it the spacing stays that
  of the subnormal numbers), and an infinity once the rounded magnitude reaches
  \<open>2\<^sup>1\<^sup>0\<^sup>2\<^sup>4\<close>.
\<close>

definition nearest_double :: "rat \<Rightarrow> js_number" where
  "nearest_double x =
     (if x = 0 then Finite 0
      else
        (let a = \<bar>x\<bar>;
             e = max (floor_log2 a) (- 1022);
             ulp = pow2 (e - 52);
             r = of_int (round_half_even (a / ulp)) * ulp
         in if pow2 1024 \<le> r then (if 0 < x then PosInfinity else NegInfinity)
            else Finite (if 0 < x then r else - r)))"

fun negative :: "js_number \<Rightarrow> bool" where
  "negative (Finite x) = (x < 0)"
| "negative NegInfinity = True"
| "negative a = False"

fun js_neg :: "js_number \<Rightarrow> js_number" where
  "js_neg (Finite x) = Finite (- x)"
| "js_neg PosInfinity = NegInfinity"
| "js_neg NegInfinity = PosInfinity"
| "js_neg NaN = NaN"

text \<open>\<^verbatim>\<open>a + b\<close>, \<^verbatim>\<open>a - b\<close>, \<^verbatim>\<open>a * b\<close> and \<^verbatim>\<open>a / b\<close> on numbers.\<close>

fun js_add :: "js_number \<Rightarrow> js_number \<Rightarrow> js_number" where
  "js_add (Finite a) (Finite b) = nearest_double (a + b)"
| "js_add NaN b = NaN"
| "js_add a NaN = NaN"
| "js_add PosInfinity NegInfinity = NaN"
| "js_add NegInfinity PosInfinity = NaN"
| "js_add (Finite a) b = b"
| "js_add a b = a"

definition js_sub :: "js_number \<Rightarrow> js_number \<Rightarrow> js_number" where
  "js_sub a b = js_add a (js_neg b)"

fun js_mul :: "js_number \<Rightarrow> js_number \<Rightarrow> js_number" where
  "js_mul (Finite a) (Finite b) = nearest_double (a * b)"
| "js_mul NaN b = NaN"
| "js_mul a NaN = NaN"
| "js_mul a b =
     (if a = Finite 0 \<or> b = Finite 0 then NaN
      else if negative a = negative b then PosInfinity else NegInfinity)"

fun js_div :: "js_number \<Rightarrow> js_number \<Rightarrow> js_number" where
  "js_div (Finite a) (Finite b) =
     (if b = 0 then (if a = 0 then NaN else if 0 < a then PosInfinity else NegInfinity)
      else nearest_double (a / b))"
| "js_div NaN b = NaN"
| "js_div a NaN = NaN"
| "js_div (Finite a) b = Finite 0"
| "js_div a (Finite b) = (if negative a = (b < 0) then PosInfinity else NegInfinity)"
| "js_div a b = NaN"

text \<open>\<^verbatim>\<open>Math.round\<close> on a number: an infinity and \<^verbatim>\<open>NaN\<close> are returned as they are.\<close>

fun math_round :: "js_number \<Rightarrow> js_number" where
  "math_round (Finite x) = Finite (of_int (js_round x))"
| "math_round a = a"

text \<open>Decimal rendering of a number inside a template string.\<close>

definition digit_char :: "nat \<Rightarrow> char" where
  "digit_char d = ''0123456789'' ! d"

fun show_nat :: "nat \<Rightarrow> string" where
  "show_nat n = (if n < 10 then [digit_char n] else show_nat (n div 10) @ [digit_char (n mod 10)])"

definition show_int :: "int \<Rightarrow> string" where
  "show_int i = (if i < 0 then CHR ''-'' # show_nat (nat (- i)) else show_nat (nat i))"

text \<open>\<^verbatim>\<open>toLowerCase\<close>, and the folding of the \<^verbatim>\<open>i\<close> flag, on ASCII letters.\<close>

definition to_lower :: "char \<Rightarrow> char" where
  "to_lower c =
     (case map_of (zip ''ABCDEFGHIJKLMNOPQRSTUVWXYZ'' ''abcdefghijklmnopqrstuvwxyz'') c of
        Some d \<Rightarrow> d
      | None \<Rightarrow> c)"

definition lowercase :: "string \<Rightarrow> string" where
  "lowercase s = map to_lower s"

text \<open>\<^verbatim>\<open>String.prototype.includes\<close>: the needle occurs as a contiguous part.\<close>

fun js_includes :: "string \<Rightarrow> string \<Rightarrow> bool" where
  "js_includes [] needle = (needle = [])"
| "js_includes (c # cs) needle = (prefix needle (c # cs) \<or> js_includes cs needle)"

text \<open>\<^verbatim>\<open>s.toLowerCase().replace(/[^a-z0-9\s]/g, "")\<close>\<close>

definition normalize :: "string \<Rightarrow> string" where
  "normalize s =
     filter (\<lambda>c. c \<in> set ''abcdefghijklmnopqrstuvwxyz0123456789'' \<or> is_space c) (lowercase s)"

section \<open>Data model\<close>

record ChapterBoundary =
  title :: string
  startPage :: int
  endPage :: int

datatype DetectionMethod = PdfLinks | TitleMatch | LlmDetection | FixedChunks

text \<open>The fields of \<^verbatim>\<open>BookStructure\<close> carry the prefix \<open>bs_\<close>, those of \<^verbatim>\<open>BookAnalysis\<close> \<open>ba_\<close>.\<close>

record BookStructure =
  bs_title :: string
  bs_author :: "string option"
  bs_chapters :: "ChapterBoundary list"
  bs_detectionMethod :: DetectionMethod

text \<open>
  \<^verbatim>\<open>chapterAnalysisSchema\<close>, which is also the shape \<^verbatim>\<open>analyzeChapter\<close> returns
  (\<^verbatim>\<open>Omit<ChapterAnalysis, "chapterNumber" | "title" | "startPage" | "endPage">\<close>).
\<close>

record chapter_insights =
  ins_summary :: string
  ins_keyConcepts :: "string list"
  ins_learningObjectives :: "string list"
  ins_prerequisites :: "string list"
  ins_estimatedReadingMinutes :: rat

record ChapterAnalysis = ChapterBoundary +
  chapterNumber :: int
  summary :: string
  keyConcepts :: "string list"
  learningObjectives :: "string list"
  prerequisites :: "string list"
  estimatedReadingMinutes :: js_number

record BookAnalysis =
  ba_title :: string
  ba_author :: "string option"
  ba_totalPages :: int
  ba_chapters :: "ChapterAnalysis list"
  ba_detectionMethod :: DetectionMethod

subsection \<open>What the PDF library hands to tier 1\<close>

text \<open>
  An annotation as \<^verbatim>\<open>detectFromPdfLinks\<close> reads it: its subtype, its \<^verbatim>\<open>dest\<close> (absent, a
  named destination, or an array whose items are numbers or something else), and the
  two places a label is looked for, each present only when it is a string.
\<close>

datatype dest_item = DestNumber int | DestOther

datatype dest_value = DestMissing | DestNamed string | DestArray "dest_item list"

record annotation =
  annot_subtype :: string
  annot_dest :: dest_value
  annot_contentsStr :: "string option"
  annot_title :: "string option"

text \<open>
  A parsed document: its page count and, for a 1-based page number, the result of
  \<^verbatim>\<open>getPage(i)\<close> followed by \<^verbatim>\<open>getAnnotations()\<close>, either of which may throw.
\<close>

record pdf_document =
  numPages :: nat
  getAnnotations :: "nat \<Rightarrow> annotation list result"

type_synonym buffer = "nat list"

record link =
  link_text :: string
  destPage :: int

subsection \<open>Objects returned by the structured-generation calls\<close>

record toc_object =
  bookTitle :: string
  toc_author :: "string option"
  chapterTitles :: "string list"

record boundary =
  boundary_title :: string
  pageNumber :: int

record boundaries_object =
  pattern :: string
  boundaries :: "boundary list"

record metadata_object =
  meta_title :: string
  meta_author :: "string option"

record discovered_chapter =
  dc_title :: string
  dc_summary :: string
  dc_keyConcepts :: "string list"
  dc_learningObjectives :: "string list"
  dc_startPage :: int
  dc_endPage :: int

subsection \<open>Course plans\<close>

record plan_unit =
  unitNumber :: rat
  unit_title :: string
  unit_summary :: string
  objectives :: "string list"
  sourceChapters :: "rat list"
  estimatedMinutes :: rat

record CoursePlan =
  plan_title :: string
  plan_description :: string
  estimatedHours :: rat
  units :: "plan_unit list"

text \<open>The schema of both plan-editing calls: a plan and an explanation.\<close>

record edited_plan = CoursePlan +
  plan_explanation :: string

record EditPlanResult =
  updatedPlan :: CoursePlan
  updatedBookAnalysis :: "BookAnalysis option"
  explanation :: string

record state_docs =
  profile :: string
  preferences :: string
  persona :: string
  memory :: string

record edit_opts =
  currentPlan :: CoursePlan
  userInstruction :: string
  bookAnalysis :: BookAnalysis
  messages :: "(string \<times> string) list"
  userId :: string
  extractedPages :: "string list option"

subsection \<open>The environment of a run\<close>

text \<open>
  Everything outside the repository's own code is a field of the environment:
  whether an API key is configured; the PDF parser; \<^verbatim>\<open>new RegExp(pattern, "i")\<close>,
  which throws or gives a matcher from a text to the matched part \<^verbatim>\<open>match[0]\<close>; the
  reading of the user's state documents; and \<^verbatim>\<open>generateObject\<close>, one field for each
  call site, as a function of the text or data that call site sends. Each
  generation call throws or returns an object of its schema. \<open>completionTime\<close> is the
  time at which the analysis of a chapter index settles; it fixes the completion
  order inside a batch.
\<close>

record environment =
  hasApiKey :: bool
  getDocumentProxy :: "buffer \<Rightarrow> pdf_document result"
  newRegExp :: "string \<Rightarrow> (string \<Rightarrow> string option) result"
  generateToc :: "string \<Rightarrow> toc_object result"
  generateBoundaries :: "string \<Rightarrow> boundaries_object result"
  generateMetadata :: "string \<Rightarrow> metadata_object result"
  generateChapterAnalysis :: "string \<Rightarrow> chapter_insights result"
  completionTime :: "nat \<Rightarrow> nat"
  loadUserStateDocs :: "string \<Rightarrow> state_docs result"
  generateDiscovery :: "string \<Rightarrow> string \<Rightarrow> discovered_chapter list result"
  generateMergedPlan :: "state_docs \<Rightarrow> string \<Rightarrow> CoursePlan \<Rightarrow> discovered_chapter list \<Rightarrow> edited_plan result"
  generateEditedPlan :: "state_docs \<Rightarrow> string \<Rightarrow> CoursePlan \<Rightarrow> BookAnalysis \<Rightarrow> edited_plan result"

section \<open>Chapter analysis (\<^verbatim>\<open>src/lib/pdf/analyzeBook.ts\<close>)\<close>

definition wordCount :: "string \<Rightarrow> nat" where
  "wordCount chapterText = length (split_ws chapterText)"

text \<open>\<^verbatim>\<open>Math.max(5, Math.round(chapterText.split(/\s+/).length / 250))\<close>\<close>

definition fallbackMinutes :: "string \<Rightarrow> rat" where
  "fallbackMinutes chapterText = of_int (max 5 (js_round (of_nat (wordCount chapterText) / 250)))"

definition fallbackSummary :: "string \<Rightarrow> string" where
  "fallbackSummary t = ''Content from '' @ dquote @ t @ dquote @ ''.''"

definition fallbackInsights :: "string \<Rightarrow> string \<Rightarrow> chapter_insights" where
  "fallbackInsights t chapterText =
     \<lparr>ins_summary = fallbackSummary t,
      ins_keyConcepts = [],
      ins_learningObjectives = [],
      ins_prerequisites = [],
      ins_estimatedReadingMinutes = fallbackMinutes chapterText\<rparr>"

definition truncateChapter :: "string \<Rightarrow> string" where
  "truncateChapter chapterText =
     (if length chapterText > 80000
      then js_slice chapterText 0 80000 @ newline @ ''[...truncated]''
      else chapterText)"

text \<open>An empty context string is falsy, as \<^verbatim>\<open>null\<close> is: no context block then.\<close>

definition contextBlock :: "string option \<Rightarrow> string" where
  "contextBlock previousChapterContext =
     (case previousChapterContext of
        None \<Rightarrow> []
      | Some c \<Rightarrow>
          if c = [] then []
          else newline @ ''The previous chapter covered these key concepts: '' @ c @ newline)"

definition chapterPrompt :: "int \<Rightarrow> string \<Rightarrow> string \<Rightarrow> string option \<Rightarrow> string" where
  "chapterPrompt n t chapterText previousChapterContext =
     ''Chapter '' @ show_int n @ '': '' @ dquote @ t @ dquote
       @ contextBlock previousChapterContext
       @ newline @ newline @ ''Chapter text:'' @ newline @ truncateChapter chapterText"

definition analyzeChapter ::
  "environment \<Rightarrow> int \<Rightarrow> string \<Rightarrow> string \<Rightarrow> string option \<Rightarrow> chapter_insights result" where
  "analyzeChapter env n t chapterText previousChapterContext =
     (if \<not> hasApiKey env then Inr (fallbackInsights t chapterText)
      else
        try_catch
          (case generateChapterAnalysis env (chapterPrompt n t chapterText previousChapterContext) of
             Inl e \<Rightarrow> Inl e
           | Inr object \<Rightarrow>
               Inr \<lparr>ins_summary =
                      (if ins_summary object \<noteq> [] then ins_summary object else fallbackSummary t),
                    ins_keyConcepts = ins_keyConcepts object,
                    ins_learningObjectives = ins_learningObjectives object,
                    ins_prerequisites = ins_prerequisites object,
                    ins_estimatedReadingMinutes =
                      (if ins_estimatedReadingMinutes object > 0
                       then ins_estimatedReadingMinutes object
                       else fallbackMinutes chapterText)\<rparr>)
          (Inr (fallbackInsights t chapterText)))"


section \<open>Batch orchestration (\<^verbatim>\<open>analyzeChaptersWithContext\<close>)\<close>

text \<open>
  One call of \<^verbatim>\<open>analyzeChapter\<close> as the orchestrator issues it, recorded with its
  arguments so that the context a chapter was analysed with can be observed.
\<close>

record analyze_call =
  call_chapterNumber :: int
  call_title :: string
  call_chapterText :: string
  call_previousContext :: "string option"

text \<open>
  A task is the promise created for chapter index \<open>i\<close>: the chapter it captured and
  the outcome of its \<^verbatim>\<open>analyzeChapter\<close> call.
\<close>

record task =
  task_index :: nat
  task_chapter :: ChapterBoundary
  task_call :: analyze_call
  task_outcome :: "chapter_insights result"

text \<open>
  The state of the orchestrator: the result slots (\<^verbatim>\<open>new Array(n)\<close>, a hole is
  \<open>None\<close>) and the calls issued so far, in the order of issue.
\<close>

record orchestrator_state =
  results :: "ChapterAnalysis option list"
  calls :: "analyze_call list"

definition chapterTextOf :: "string list \<Rightarrow> ChapterBoundary \<Rightarrow> string" where
  "chapterTextOf pages chapter =
     join (newline @ newline) (js_slice pages (startPage chapter) (endPage chapter + 1))"

text \<open>
  \<^verbatim>\<open>if (i > 0 && results[i - 1]) previousContext = results[i - 1].keyConcepts.join(", ")\<close>.
  The index \<open>i - 1\<close> is inside the array whenever \<open>i\<close> is a chapter index.
\<close>

definition previousContextAt :: "ChapterAnalysis option list \<Rightarrow> nat \<Rightarrow> string option" where
  "previousContextAt rs i =
     (if i > 0 then
        (case rs ! (i - 1) of
           None \<Rightarrow> None
         | Some prev \<Rightarrow> Some (join '', '' (keyConcepts prev)))
      else None)"

text \<open>The body of the inner loop up to the call: everything here runs synchronously.\<close>

definition createTask ::
  "environment \<Rightarrow> string list \<Rightarrow> ChapterBoundary list \<Rightarrow> ChapterAnalysis option list \<Rightarrow> nat \<Rightarrow> task" where
  "createTask env pages chapters rs i =
     (let chapter = chapters ! i;
          chapterText = chapterTextOf pages chapter;
          previousContext = previousContextAt rs i
      in \<lparr>task_index = i,
          task_chapter = chapter,
          task_call = \<lparr>call_chapterNumber = int i + 1,
                       call_title = title chapter,
                       call_chapterText = chapterText,
                       call_previousContext = previousContext\<rparr>,
          task_outcome = analyzeChapter env (int i + 1) (title chapter) chapterText previousContext\<rparr>)"

text \<open>The \<^verbatim>\<open>.then\<close> callback of a task: it writes the task's own slot.\<close>

definition slotValue :: "task \<Rightarrow> chapter_insights \<Rightarrow> ChapterAnalysis" where
  "slotValue t analysis =
     \<lparr>title = title (task_chapter t),
      startPage = startPage (task_chapter t),
      endPage = endPage (task_chapter t),
      chapterNumber = int (task_index t) + 1,
      summary = ins_summary analysis,
      keyConcepts = ins_keyConcepts analysis,
      learningObjectives = ins_learningObjectives analysis,
      prerequisites = ins_prerequisites analysis,
      estimatedReadingMinutes = Finite (ins_estimatedReadingMinutes analysis)\<rparr>"

definition writeSlot ::
  "ChapterAnalysis option list \<Rightarrow> task \<Rightarrow> chapter_insights \<Rightarrow> ChapterAnalysis option list" where
  "writeSlot rs t analysis = rs[task_index t := Some (slotValue t analysis)]"

text \<open>
  \<^verbatim>\<open>await Promise.all(batchPromises)\<close>, over the tasks in the order in which they
  settle: a fulfilled task runs its callback, the first rejected one rejects the
  whole and ends the function with that error.
\<close>

fun settle :: "ChapterAnalysis option list \<Rightarrow> task list \<Rightarrow> ChapterAnalysis option list result" where
  "settle rs [] = Inr rs"
| "settle rs (t # ts) =
     (case task_outcome t of
        Inl e \<Rightarrow> Inl e
      | Inr analysis \<Rightarrow> settle (writeSlot rs t analysis) ts)"

text \<open>
  One batch. JavaScript runs the inner \<^verbatim>\<open>for\<close> loop to its end before any callback:
  callbacks are queued and run only once the function suspends at the
  \<^verbatim>\<open>await\<close>. So every task of the batch is created against the slots as they were
  when the batch began, and the writes follow, in completion order.
\<close>

definition runBatch ::
  "environment \<Rightarrow> string list \<Rightarrow> ChapterBoundary list \<Rightarrow> orchestrator_state \<Rightarrow> nat \<Rightarrow> nat
     \<Rightarrow> orchestrator_state result" where
  "runBatch env pages chapters st batchStart batchEnd =
     (let tasks = map (createTask env pages chapters (results st)) [batchStart..<batchEnd];
          settled = sort_key (\<lambda>t. completionTime env (task_index t)) tasks
      in case settle (results st) settled of
           Inl e \<Rightarrow> Inl e
         | Inr rs \<Rightarrow> Inr \<lparr>results = rs, calls = calls st @ map task_call tasks\<rparr>)"

definition concurrencyLimit :: nat where
  "concurrencyLimit = 5"

function batchLoop ::
  "environment \<Rightarrow> string list \<Rightarrow> ChapterBoundary list \<Rightarrow> orchestrator_state \<Rightarrow> nat
     \<Rightarrow> orchestrator_state result" where
  "batchLoop env pages chapters st batchStart =
     (if batchStart < length chapters then
        (let batchEnd = min (batchStart + concurrencyLimit) (length chapters)
         in case runBatch env pages chapters st batchStart batchEnd of
              Inl e \<Rightarrow> Inl e
            | Inr st' \<Rightarrow> batchLoop env pages chapters st' (batchStart + concurrencyLimit))
      else Inr st)"
  by pat_completeness auto
termination
  by (relation "measure (\<lambda>(env, pages, chapters, st, batchStart). length chapters - batchStart)")
     (auto simp: concurrencyLimit_def)

definition runAnalysis ::
  "environment \<Rightarrow> BookStructure \<Rightarrow> string list \<Rightarrow> orchestrator_state result" where
  "runAnalysis env structure pages =
     batchLoop env pages (bs_chapters structure)
       \<lparr>results = replicate (length (bs_chapters structure)) None, calls = []\<rparr> 0"

definition analyzeChaptersWithContext ::
  "environment \<Rightarrow> BookStructure \<Rightarrow> string list \<Rightarrow> ChapterAnalysis option list result" where
  "analyzeChaptersWithContext env structure pages =
     (case runAnalysis env structure pages of Inl e \<Rightarrow> Inl e | Inr st \<Rightarrow> Inr (results st))"

section \<open>Structure detection (\<^verbatim>\<open>src/lib/pdf/detectStructure.ts\<close>)\<close>

text \<open>
  \<^verbatim>\<open>xs.map((x, i) => ({ ..., endPage: i < xs.length - 1 ? next(xs[i + 1]) : last }))\<close>,
  the scheme by which every tier closes a chapter at the page before the next one's
  start. The entry \<open>i + 1\<close> is read only where it exists.
\<close>

definition withEndPages ::
  "'a list \<Rightarrow> ('a \<Rightarrow> string) \<Rightarrow> ('a \<Rightarrow> int) \<Rightarrow> ('a \<Rightarrow> int) \<Rightarrow> int \<Rightarrow> ChapterBoundary list" where
  "withEndPages xs titleOf startOf endBefore lastPage =
     map (\<lambda>i. \<lparr>title = titleOf (xs ! i),
               startPage = startOf (xs ! i),
               endPage = (if int i < int (length xs) - 1 then endBefore (xs ! (i + 1))
                          else lastPage)\<rparr>)
       [0..<length xs]"

subsection \<open>Tier 1: link annotations\<close>

definition linkOfAnnotation :: "annotation \<Rightarrow> link option" where
  "linkOfAnnotation annot =
     (if annot_subtype annot = ''Link'' then
        (case annot_dest annot of
           DestArray items \<Rightarrow>
             (case (case items of DestNumber n # rest \<Rightarrow> Some n | _ \<Rightarrow> None) of
                None \<Rightarrow> None
              | Some page \<Rightarrow>
                  (let text = (case annot_contentsStr annot of
                                 Some str \<Rightarrow> str
                               | None \<Rightarrow> (case annot_title annot of Some t \<Rightarrow> t | None \<Rightarrow> []))
                   in if trim text \<noteq> [] \<and> page \<ge> 0
                      then Some \<lparr>link_text = trim text, destPage = page\<rparr>
                      else None))
         | _ \<Rightarrow> None)
      else None)"

text \<open>The loop over the pages \<open>1 .. tocPages\<close>; a throwing page ends it with the error.\<close>

fun scanPages :: "pdf_document \<Rightarrow> nat list \<Rightarrow> link list result" where
  "scanPages pdf [] = Inr []"
| "scanPages pdf (i # rest) =
     (case getAnnotations pdf i of
        Inl e \<Rightarrow> Inl e
      | Inr annotations \<Rightarrow>
          (case scanPages pdf rest of
             Inl e \<Rightarrow> Inl e
           | Inr links \<Rightarrow> Inr (List.map_filter linkOfAnnotation annotations @ links)))"

text \<open>The filter with the \<^verbatim>\<open>seen\<close> set: the first link of each destination page stays.\<close>

fun keepFirstPerPage :: "int list \<Rightarrow> link list \<Rightarrow> link list" where
  "keepFirstPerPage seen [] = []"
| "keepFirstPerPage seen (l # ls) =
     (if destPage l \<in> set seen then keepFirstPerPage seen ls
      else l # keepFirstPerPage (destPage l # seen) ls)"

definition detectFromPdfLinks :: "environment \<Rightarrow> buffer \<Rightarrow> ChapterBoundary list option result" where
  "detectFromPdfLinks env buf =
     try_catch
       (case getDocumentProxy env buf of
          Inl e \<Rightarrow> Inl e
        | Inr pdf \<Rightarrow>
            (let tocPages = min 15 (numPages pdf)
             in case scanPages pdf [1..<tocPages + 1] of
                  Inl e \<Rightarrow> Inl e
                | Inr links \<Rightarrow>
                    if length links < 3 then Inr None
                    else
                      (let sorted = sort_key destPage links;
                           unique = keepFirstPerPage [] sorted
                       in if length unique < 3 then Inr None
                          else
                            (let totalPages = int (numPages pdf)
                             in Inr (Some (withEndPages unique link_text destPage
                                             (\<lambda>next. destPage next - 1) (totalPages - 1)))))))
       (Inr None)"

subsection \<open>Tier 2: title matching\<close>

definition pageBreak :: string where
  "pageBreak = newline @ ''---PAGE BREAK---'' @ newline"

definition tocPrompt :: "string \<Rightarrow> string" where
  "tocPrompt tocText =
     ''Extract the book title, author (if visible), and chapter titles from this table of contents text:''
       @ newline @ newline @ tocText"

text \<open>The inner loop over the pages: the first page whose normalized text contains the title.\<close>

definition findTitlePage :: "string list \<Rightarrow> string \<Rightarrow> nat option" where
  "findTitlePage pages normalizedTitle =
     find (\<lambda>p. js_includes (normalize (pages ! p)) normalizedTitle \<and> length normalizedTitle > 5)
       [0..<length pages]"

definition matchTitles :: "string list \<Rightarrow> string list \<Rightarrow> ChapterBoundary list" where
  "matchTitles pages titles =
     concat (map (\<lambda>t. case findTitlePage pages (normalize t) of
                         None \<Rightarrow> []
                       | Some p \<Rightarrow> [\<lparr>title = t, startPage = int p, endPage = int p\<rparr>])
               titles)"

record title_result =
  tr_chapters :: "ChapterBoundary list"
  tr_title :: string
  tr_author :: "string option"

text \<open>
  The source sorts the located chapters and then overwrites each \<^verbatim>\<open>endPage\<close> in place,
  reading only the \<^verbatim>\<open>startPage\<close> of the next entry, which the loop never changes.
\<close>

definition detectFromTitleMatching :: "environment \<Rightarrow> string list \<Rightarrow> title_result option result" where
  "detectFromTitleMatching env pages =
     (if \<not> hasApiKey env then Inr None
      else
        (let tocText = join pageBreak (js_slice pages 0 (min 15 (int (length pages))))
         in if length (trim tocText) < 100 then Inr None
            else
              try_catch
                (case generateToc env (tocPrompt tocText) of
                   Inl e \<Rightarrow> Inl e
                 | Inr toc \<Rightarrow>
                     if length (chapterTitles toc) < 2 then Inr None
                     else
                       (let located = matchTitles pages (chapterTitles toc)
                        in if length located < 2 then Inr None
                           else
                             (let sorted = sort_key startPage located;
                                  chapters = withEndPages sorted title startPage
                                               (\<lambda>next. startPage next - 1) (int (length pages) - 1)
                              in Inr (Some \<lparr>tr_chapters = chapters,
                                            tr_title = (if bookTitle toc \<noteq> [] then bookTitle toc
                                                        else ''Untitled''),
                                            tr_author = toc_author toc\<rparr>))))
                (Inr None)))"

subsection \<open>Tier 3: boundaries from sampled pages\<close>

text \<open>
  \<^verbatim>\<open>for (let i = 0; i < pages.length; i += step)\<close>. The source's step is at least 1;
  the test on \<open>step\<close> makes the recursion end for every argument.
\<close>

function sampleIndicesFrom :: "nat \<Rightarrow> nat \<Rightarrow> nat \<Rightarrow> nat list" where
  "sampleIndicesFrom n step i =
     (if i < n \<and> 0 < step then i # sampleIndicesFrom n step (i + step) else [])"
  by pat_completeness auto
termination
  by (relation "measure (\<lambda>(n, step, i). n - i)") auto

definition sampledText :: "string list \<Rightarrow> string" where
  "sampledText pages =
     (let step = max 1 (length pages div 30);
          sampleIndices = sampleIndicesFrom (length pages) step 0
      in join (newline @ newline)
           (map (\<lambda>i. ''--- PAGE '' @ show_nat (i + 1) @ '' ---'' @ newline @ js_slice (pages ! i) 0 500)
              sampleIndices))"

definition boundariesPrompt :: "string list \<Rightarrow> string" where
  "boundariesPrompt pages =
     ''Here are sampled pages from a '' @ show_nat (length pages)
       @ ''-page book. Identify the chapter/section boundary pattern and list all boundaries you can find:''
       @ newline @ newline @ sampledText pages"

text \<open>The scan of every page with the compiled pattern: one entry for each page that matches.\<close>

definition scanWithPattern :: "(string \<Rightarrow> string option) \<Rightarrow> string list \<Rightarrow> (string \<times> nat) list" where
  "scanWithPattern regex pages =
     List.map_filter
       (\<lambda>p. case regex (pages ! p) of
               None \<Rightarrow> None
             | Some matched \<Rightarrow> Some (js_slice (trim matched) 0 100, p))
       [0..<length pages]"

definition chaptersFromBoundaries :: "boundary list \<Rightarrow> string list \<Rightarrow> ChapterBoundary list" where
  "chaptersFromBoundaries bs pages =
     (let sorted = sort_key pageNumber bs
      in withEndPages sorted boundary_title (\<lambda>b. pageNumber b - 1)
           (\<lambda>next. pageNumber next - 2) (int (length pages) - 1))"

definition detectFromLlmSampling :: "environment \<Rightarrow> string list \<Rightarrow> ChapterBoundary list option result" where
  "detectFromLlmSampling env pages =
     (if \<not> hasApiKey env then Inr None
      else if length pages < 10 then Inr None
      else
        try_catch
          (case generateBoundaries env (boundariesPrompt pages) of
             Inl e \<Rightarrow> Inl e
           | Inr result \<Rightarrow>
               if length (boundaries result) < 2 then Inr None
               else
                 (case newRegExp env (pattern result) of
                    Inr regex \<Rightarrow>
                      (let found = scanWithPattern regex pages
                       in if length found \<ge> 2
                          then Inr (Some (withEndPages found fst (\<lambda>f. int (snd f))
                                            (\<lambda>next. int (snd next) - 1) (int (length pages) - 1)))
                          else Inr (Some (chaptersFromBoundaries (boundaries result) pages)))
                  | Inl e \<Rightarrow> Inr (Some (chaptersFromBoundaries (boundaries result) pages))))
          (Inr None))"

subsection \<open>Tier 4: fixed chunks\<close>

function fixedChunksFrom :: "string list \<Rightarrow> ChapterBoundary list \<Rightarrow> nat \<Rightarrow> ChapterBoundary list" where
  "fixedChunksFrom pages chapters i =
     (if i < length pages then
        fixedChunksFrom pages
          (chapters @ [\<lparr>title = ''Section '' @ show_nat (length chapters + 1),
                         startPage = int i,
                         endPage = min (int i + 30 - 1) (int (length pages) - 1)\<rparr>])
          (i + 30)
      else chapters)"
  by pat_completeness auto
termination
  by (relation "measure (\<lambda>(pages, chapters, i). length pages - i)") auto

definition fixedChunks :: "string list \<Rightarrow> ChapterBoundary list" where
  "fixedChunks pages = fixedChunksFrom pages [] 0"

subsection \<open>Title and author, and the entry point\<close>

definition untitledBook :: metadata_object where
  "untitledBook = \<lparr>meta_title = ''Untitled Book'', meta_author = None\<rparr>"

definition extractBookMetadata :: "environment \<Rightarrow> string list \<Rightarrow> metadata_object result" where
  "extractBookMetadata env pages =
     (if \<not> hasApiKey env then Inr untitledBook
      else
        (let firstPages = join pageBreak (js_slice pages 0 5)
         in try_catch
              (case generateMetadata env firstPages of
                 Inl e \<Rightarrow> Inl e
               | Inr object \<Rightarrow>
                   Inr \<lparr>meta_title = (if meta_title object \<noteq> [] then meta_title object
                                       else ''Untitled Book''),
                        meta_author = meta_author object\<rparr>)
              (Inr untitledBook)))"

definition withMetadata ::
  "environment \<Rightarrow> string list \<Rightarrow> ChapterBoundary list \<Rightarrow> DetectionMethod \<Rightarrow> BookStructure result" where
  "withMetadata env pages chapters method =
     (case extractBookMetadata env pages of
        Inl e \<Rightarrow> Inl e
      | Inr meta \<Rightarrow>
          Inr \<lparr>bs_title = meta_title meta, bs_author = meta_author meta,
               bs_chapters = chapters, bs_detectionMethod = method\<rparr>)"

definition tier4 :: "environment \<Rightarrow> string list \<Rightarrow> BookStructure result" where
  "tier4 env pages = withMetadata env pages (fixedChunks pages) FixedChunks"

definition tier3 :: "environment \<Rightarrow> string list \<Rightarrow> BookStructure result" where
  "tier3 env pages =
     (case detectFromLlmSampling env pages of
        Inl e \<Rightarrow> Inl e
      | Inr llmChapters \<Rightarrow>
          (case llmChapters of
             Some chapters \<Rightarrow>
               if length chapters \<ge> 2 then withMetadata env pages chapters LlmDetection
               else tier4 env pages
           | None \<Rightarrow> tier4 env pages))"

definition tier2 :: "environment \<Rightarrow> string list \<Rightarrow> BookStructure result" where
  "tier2 env pages =
     (case detectFromTitleMatching env pages of
        Inl e \<Rightarrow> Inl e
      | Inr titleResult \<Rightarrow>
          (case titleResult of
             Some r \<Rightarrow>
               if length (tr_chapters r) \<ge> 2
               then Inr \<lparr>bs_title = tr_title r, bs_author = tr_author r,
                         bs_chapters = tr_chapters r, bs_detectionMethod = TitleMatch\<rparr>
               else tier3 env pages
           | None \<Rightarrow> tier3 env pages))"

text \<open>
  \<^verbatim>\<open>detectBookStructure\<close>: the tiers in order, each continuing with the next when it
  gave nothing (\<open>tier2\<close>, \<open>tier3\<close> and \<open>tier4\<close> are the rest of the function body from
  that tier on).
\<close>

definition detectBookStructure :: "environment \<Rightarrow> buffer \<Rightarrow> string list \<Rightarrow> BookStructure result" where
  "detectBookStructure env buf pages =
     (case detectFromPdfLinks env buf of
        Inl e \<Rightarrow> Inl e
      | Inr linkChapters \<Rightarrow>
          (case linkChapters of
             Some chapters \<Rightarrow>
               if length chapters \<ge> 3 then withMetadata env pages chapters PdfLinks
               else tier2 env pages
           | None \<Rightarrow> tier2 env pages))"

section \<open>Plan editing and gap reconciliation (\<^verbatim>\<open>editCoursePlan\<close>)\<close>

text \<open>
  \<^verbatim>\<open>/miss|last chapter|missing|forgot|left out|not included|cut off|incomplete/i.test(s)\<close>:
  one of the alternatives occurs in the instruction, letter case ignored.
\<close>

definition looksLikeMissingContent :: "string \<Rightarrow> bool" where
  "looksLikeMissingContent instruction =
     list_ex (js_includes (lowercase instruction))
       [''miss'', ''last chapter'', ''missing'', ''forgot'', ''left out'', ''not included'',
        ''cut off'', ''incomplete'']"

text \<open>\<^verbatim>\<open>lastChapter ? lastChapter.endPage : 0\<close>, the last chapter being absent for an empty list.\<close>

definition lastDetectedPageOf :: "BookAnalysis \<Rightarrow> int" where
  "lastDetectedPageOf analysis =
     (case ba_chapters analysis of [] \<Rightarrow> 0 | c # cs \<Rightarrow> endPage (last (c # cs)))"

definition uncoveredTextOf :: "string list \<Rightarrow> int \<Rightarrow> string" where
  "uncoveredTextOf pages lastDetectedPage =
     js_slice (join pageBreak (js_slice_from pages (lastDetectedPage + 1))) 0 12000"

definition discoverySystem :: "int \<Rightarrow> int \<Rightarrow> string" where
  "discoverySystem totalPages lastDetectedPage =
     join newline
       [''You are analyzing pages from a book that were not covered by the initial chapter detection.'',
        ''The book has '' @ show_int totalPages @ '' pages. The last detected chapter ends at page ''
          @ show_int (lastDetectedPage + 1) @ ''.'',
        ''Pages '' @ show_int (lastDetectedPage + 2) @ '' through '' @ show_int totalPages
          @ '' were not included in any chapter.'',
        ''Identify the chapter(s) present in these pages.'']"

definition discoveryPrompt :: "string \<Rightarrow> string" where
  "discoveryPrompt uncoveredText =
     join newline
       [''Uncovered page text:'', uncoveredText, [],
        ''Identify the chapter title, a brief summary, key concepts, learning objectives, and the approximate page range.'']"

text \<open>
  \<^verbatim>\<open>Math.round(((ch.endPage - ch.startPage + 1) / totalPages) * 120)\<close>, operation by
  operation in double arithmetic. For \<open>totalPages = 0\<close> the quotient is an infinity
  or \<^verbatim>\<open>NaN\<close>, and so is the result.
\<close>

definition proportionalMinutes :: "int \<Rightarrow> int \<Rightarrow> int \<Rightarrow> js_number" where
  "proportionalMinutes start end totalPages =
     math_round
       (js_mul
          (js_div (js_add (js_sub (Finite (of_int end)) (Finite (of_int start))) (Finite 1))
             (Finite (of_int totalPages)))
          (Finite 120))"

text \<open>The mapping of the discovered chapters, \<open>base\<close> being the number of known chapters.\<close>

definition discoveredAnalyses :: "nat \<Rightarrow> int \<Rightarrow> discovered_chapter list \<Rightarrow> ChapterAnalysis list" where
  "discoveredAnalyses base totalPages discovered =
     map (\<lambda>i. let ch = discovered ! i
              in \<lparr>title = dc_title ch,
                  startPage = dc_startPage ch,
                  endPage = dc_endPage ch,
                  chapterNumber = int base + int i + 1,
                  summary = dc_summary ch,
                  keyConcepts = dc_keyConcepts ch,
                  learningObjectives = dc_learningObjectives ch,
                  prerequisites = [],
                  estimatedReadingMinutes =
                    proportionalMinutes (dc_startPage ch) (dc_endPage ch) totalPages\<rparr>)
       [0..<length discovered]"

definition planOf :: "edited_plan \<Rightarrow> CoursePlan" where
  "planOf editedPlan =
     \<lparr>plan_title = plan_title editedPlan,
      plan_description = plan_description editedPlan,
      estimatedHours = estimatedHours editedPlan,
      units = units editedPlan\<rparr>"

definition noApiKeyExplanation :: string where
  "noApiKeyExplanation =
     ''No API key configured '' @ [CHR 0xE2, CHR 0x80, CHR 0x94]
       @ '' unable to edit the plan automatically.''"

text \<open>The standard edit: a single generation call.\<close>

definition standardEdit :: "environment \<Rightarrow> state_docs \<Rightarrow> edit_opts \<Rightarrow> EditPlanResult result" where
  "standardEdit env docs opts =
     (case generateEditedPlan env docs (userInstruction opts) (currentPlan opts) (bookAnalysis opts) of
        Inl e \<Rightarrow> Inl e
      | Inr editedPlan \<Rightarrow>
          Inr \<lparr>updatedPlan = planOf editedPlan,
               updatedBookAnalysis = None,
               explanation = plan_explanation editedPlan\<rparr>)"

text \<open>The two-step flow: discovery of the uncovered chapters, then the merge into the plan.\<close>

definition discoveryFlow ::
  "environment \<Rightarrow> state_docs \<Rightarrow> edit_opts \<Rightarrow> string list \<Rightarrow> int \<Rightarrow> int \<Rightarrow> EditPlanResult result" where
  "discoveryFlow env docs opts pages lastDetectedPage totalPages =
     (case generateDiscovery env (discoverySystem totalPages lastDetectedPage)
             (discoveryPrompt (uncoveredTextOf pages lastDetectedPage)) of
        Inl e \<Rightarrow> Inl e
      | Inr discovered \<Rightarrow>
          (let updated = (bookAnalysis opts)
                 \<lparr>ba_chapters := ba_chapters (bookAnalysis opts)
                    @ discoveredAnalyses (length (ba_chapters (bookAnalysis opts))) totalPages discovered\<rparr>
           in case generateMergedPlan env docs (userInstruction opts) (currentPlan opts) discovered of
                Inl e \<Rightarrow> Inl e
              | Inr editedPlan \<Rightarrow>
                  Inr \<lparr>updatedPlan = planOf editedPlan,
                       updatedBookAnalysis = Some updated,
                       explanation = plan_explanation editedPlan\<rparr>))"

text \<open>
  \<^verbatim>\<open>editCoursePlan\<close>. No call of the function body is inside a \<^verbatim>\<open>try\<close>: an error
  thrown by the reading of the state documents or by a generation call is the
  function's outcome.
\<close>

definition editCoursePlan :: "environment \<Rightarrow> edit_opts \<Rightarrow> EditPlanResult result" where
  "editCoursePlan env opts =
     (if \<not> hasApiKey env
      then Inr \<lparr>updatedPlan = currentPlan opts, updatedBookAnalysis = None,
                explanation = noApiKeyExplanation\<rparr>
      else
        (case loadUserStateDocs env (userId opts) of
           Inl e \<Rightarrow> Inl e
         | Inr docs \<Rightarrow>
             (case extractedPages opts of
                None \<Rightarrow> standardEdit env docs opts
              | Some pages \<Rightarrow>
                  if looksLikeMissingContent (userInstruction opts) \<and> pages \<noteq> [] then
                    (let lastDetectedPage = lastDetectedPageOf (bookAnalysis opts);
                         totalPages = ba_totalPages (bookAnalysis opts)
                     in if lastDetectedPage < totalPages - 1
                        then discoveryFlow env docs opts pages lastDetectedPage totalPages
                        else standardEdit env docs opts)
                  else standardEdit env docs opts)))"

text \<open>
  The conjunction of the two nested tests of \<^verbatim>\<open>editCoursePlan\<close> under which the
  two-step flow runs: the instruction looks like a report of missing content, raw
  pages are at hand, and the last known chapter ends before the last page.
\<close>

definition discoveryEngaged :: "edit_opts \<Rightarrow> bool" where
  "discoveryEngaged opts =
     (case extractedPages opts of
        None \<Rightarrow> False
      | Some pages \<Rightarrow>
          looksLikeMissingContent (userInstruction opts) \<and> pages \<noteq> []
          \<and> lastDetectedPageOf (bookAnalysis opts) < ba_totalPages (bookAnalysis opts) - 1)"

section \<open>Concrete runs\<close>

text \<open>
  Environments and inputs on which the properties below are instantiated. In
  \<open>offlineEnv\<close> no API key is configured and every external call throws. In
  \<open>failingEnv\<close> a key is configured and every generation call throws. In
  \<open>conceptEnv\<close> a key is configured, every chapter analysis returns the same two key
  concepts, and the chapters of a batch settle in reverse order.
\<close>

definition emptyDocs :: state_docs where
  "emptyDocs = \<lparr>profile = [], preferences = [], persona = [], memory = []\<rparr>"

definition offlineEnv :: environment where
  "offlineEnv =
     \<lparr>hasApiKey = False,
      getDocumentProxy = (\<lambda>b. Inl (Thrown ''invalid PDF'')),
      newRegExp = (\<lambda>p. Inl (Thrown ''invalid regular expression'')),
      generateToc = (\<lambda>p. Inl (Thrown ''generation failed'')),
      generateBoundaries = (\<lambda>p. Inl (Thrown ''generation failed'')),
      generateMetadata = (\<lambda>p. Inl (Thrown ''generation failed'')),
      generateChapterAnalysis = (\<lambda>p. Inl (Thrown ''generation failed'')),
      completionTime = (\<lambda>i. 0),
      loadUserStateDocs = (\<lambda>u. Inr emptyDocs),
      generateDiscovery = (\<lambda>s p. Inl (Thrown ''generation failed'')),
      generateMergedPlan = (\<lambda>d i p c. Inl (Thrown ''generation failed'')),
      generateEditedPlan = (\<lambda>d i p b. Inl (Thrown ''generation failed''))\<rparr>"

definition failingEnv :: environment where
  "failingEnv = offlineEnv\<lparr>hasApiKey := True\<rparr>"

definition twoConcepts :: chapter_insights where
  "twoConcepts =
     \<lparr>ins_summary = ''About sets and maps.'',
      ins_keyConcepts = [''sets'', ''maps''],
      ins_learningObjectives = [''Use sets''],
      ins_prerequisites = [],
      ins_estimatedReadingMinutes = 25 / 2\<rparr>"

definition conceptEnv :: environment where
  "conceptEnv =
     offlineEnv\<lparr>hasApiKey := True,
                generateChapterAnalysis := (\<lambda>p. Inr twoConcepts),
                completionTime := (\<lambda>i. 100 - i)\<rparr>"

text \<open>A structure of twelve one-page chapters over twelve pages.\<close>

definition twelvePages :: "string list" where
  "twelvePages = replicate 12 ''some text''"

definition twelveChapters :: BookStructure where
  "twelveChapters =
     \<lparr>bs_title = ''Twelve'', bs_author = None,
      bs_chapters = map (\<lambda>i. \<lparr>title = ''Part'', startPage = int i, endPage = int i\<rparr>) [0..<12],
      bs_detectionMethod = FixedChunks\<rparr>"

text \<open>A chapter text of 1400 words.\<close>

definition longChapter :: string where
  "longChapter = concat (replicate 1399 ''a '') @ ''a''"

text \<open>
  A three-page PDF whose pages carry a text annotation and no link, with one page
  of text, handed to an environment without an API key.
\<close>

definition noteAnnotation :: annotation where
  "noteAnnotation =
     \<lparr>annot_subtype = ''Text'', annot_dest = DestMissing,
      annot_contentsStr = Some ''a note'', annot_title = None\<rparr>"

definition threePagePdf :: pdf_document where
  "threePagePdf = \<lparr>numPages = 3, getAnnotations = (\<lambda>i. Inr [noteAnnotation])\<rparr>"

definition plainPdfEnv :: environment where
  "plainPdfEnv = offlineEnv\<lparr>getDocumentProxy := (\<lambda>b. Inr threePagePdf)\<rparr>"

definition loremPages :: "string list" where
  "loremPages = [''Lorem ipsum dolor sit amet, consectetur adipiscing elit.'', [], []]"

text \<open>
  A three-page book whose first page is its table of contents, with a key
  configured and a generation call that returns the two chapter titles printed on
  that page. The PDF has no readable link annotations.
\<close>

definition contentsPage :: string where
  "contentsPage =
     ''Table of Contents. Chapter 1: Introduction to Logic, page 2. Chapter 2: Advanced Proof Methods, page 3. End of contents.''"

definition tocPages :: "string list" where
  "tocPages =
     [contentsPage,
      ''Introduction to Logic. Logic studies valid inference.'',
      ''Advanced Proof Methods. Induction and more.'']"

definition tocReply :: toc_object where
  "tocReply =
     \<lparr>bookTitle = ''A Course in Logic'', toc_author = None,
      chapterTitles = [''Introduction to Logic'', ''Advanced Proof Methods'']\<rparr>"

definition tocEnv :: environment where
  "tocEnv = offlineEnv\<lparr>hasApiKey := True, generateToc := (\<lambda>p. Inr tocReply)\<rparr>"

text \<open>
  An edit request on a 120-page book whose only known chapter ends at page 99, with
  the raw pages at hand and an instruction that contains the word missing.
\<close>

definition samplePlan :: CoursePlan where
  "samplePlan =
     \<lparr>plan_title = ''Logic'', plan_description = ''A course'', estimatedHours = 10,
      units = [\<lparr>unitNumber = 1, unit_title = ''Unit 1'', unit_summary = ''Basics'',
                 objectives = [], sourceChapters = [1], estimatedMinutes = 60\<rparr>]\<rparr>"

definition firstChapter :: ChapterAnalysis where
  "firstChapter =
     \<lparr>title = ''Basics'', startPage = 0, endPage = 99, chapterNumber = 1,
      summary = ''All the basics.'', keyConcepts = [], learningObjectives = [],
      prerequisites = [], estimatedReadingMinutes = Finite 100\<rparr>"

definition gapAnalysis :: BookAnalysis where
  "gapAnalysis =
     \<lparr>ba_title = ''Logic'', ba_author = None, ba_totalPages = 120,
      ba_chapters = [firstChapter], ba_detectionMethod = FixedChunks\<rparr>"

definition gapOpts :: edit_opts where
  "gapOpts =
     \<lparr>currentPlan = samplePlan, userInstruction = ''The last part is missing'',
      bookAnalysis = gapAnalysis, messages = [], userId = ''u1'',
      extractedPages = Some (replicate 120 ''page text'')\<rparr>"

definition mergedReply :: edited_plan where
  "mergedReply =
     \<lparr>plan_title = ''Logic'', plan_description = ''A course'', estimatedHours = 10,
      units = [], plan_explanation = ''Merged.''\<rparr>"

text \<open>The discovery call finds nothing.\<close>

definition emptyDiscoveryEnv :: environment where
  "emptyDiscoveryEnv =
     offlineEnv\<lparr>hasApiKey := True,
                generateDiscovery := (\<lambda>s p. Inr []),
                generateMergedPlan := (\<lambda>d i p c. Inr mergedReply)\<rparr>"

text \<open>The discovery call finds the closing chapter on the pages 100 to 119.\<close>

definition closingChapter :: discovered_chapter where
  "closingChapter =
     \<lparr>dc_title = ''Conclusion'', dc_summary = ''Wrap-up'', dc_keyConcepts = [''review''],
      dc_learningObjectives = [], dc_startPage = 100, dc_endPage = 119\<rparr>"

definition closingEnv :: environment where
  "closingEnv =
     offlineEnv\<lparr>hasApiKey := True,
                generateDiscovery := (\<lambda>s p. Inr [closingChapter]),
                generateMergedPlan := (\<lambda>d i p c. Inr mergedReply)\<rparr>"

text \<open>The same request on a 300-page book, where discovery finds a one-page appendix.\<close>

definition longBookOpts :: edit_opts where
  "longBookOpts =
     gapOpts\<lparr>bookAnalysis := gapAnalysis\<lparr>ba_totalPages := 300\<rparr>,
             extractedPages := Some (replicate 300 ''page text'')\<rparr>"

definition appendix :: discovered_chapter where
  "appendix =
     \<lparr>dc_title = ''Appendix'', dc_summary = ''Tables'', dc_keyConcepts = [],
      dc_learningObjectives = [], dc_startPage = 299, dc_endPage = 299\<rparr>"

definition appendixEnv :: environment where
  "appendixEnv =
     offlineEnv\<lparr>hasApiKey := True,
                generateDiscovery := (\<lambda>s p. Inr [appendix]),
                generateMergedPlan := (\<lambda>d i p c. Inr mergedReply)\<rparr>"

text \<open>
  The loop invariant used below, at a batch start \<open>k\<close>: the slots below \<open>k\<close> are filled
  with the analysis of their own chapter, the others are holes, and one call has been
  issued for each filled slot, with the context the invariant names.
\<close>

definition slots_ok :: "ChapterBoundary list \<Rightarrow> orchestrator_state \<Rightarrow> nat \<Rightarrow> bool" where
  "slots_ok chapters st k \<longleftrightarrow>
     length (results st) = length chapters \<and>
     length (calls st) = min k (length chapters) \<and>
     (\<forall>i < length chapters.
        (i < k \<longrightarrow> (\<exists>a. results st ! i = Some a \<and> chapterNumber a = int i + 1
                          \<and> title a = title (chapters ! i)
                          \<and> startPage a = startPage (chapters ! i)
                          \<and> endPage a = endPage (chapters ! i))) \<and>
        (k \<le> i \<longrightarrow> results st ! i = None)) \<and>
     (\<forall>i < min k (length chapters).
        call_chapterNumber (calls st ! i) = int i + 1 \<and>
        call_previousContext (calls st ! i) =
          (if 0 < i \<and> i mod 5 = 0
           then map_option (\<lambda>a. join '', '' (keyConcepts a)) (results st ! (i - 1))
           else None))"

text \<open>
  The second part of the invariant: each filled slot holds what \<^verbatim>\<open>analyzeChapter\<close>
  returned for the call recorded at the same index, together with the number, title
  and pages of its chapter, and that call was issued with the number, title and
  text of the chapter.
\<close>

definition slots_from_calls ::
  "environment \<Rightarrow> string list \<Rightarrow> ChapterBoundary list \<Rightarrow> orchestrator_state \<Rightarrow> nat \<Rightarrow> bool" where
  "slots_from_calls env pages chapters st k \<longleftrightarrow>
     (\<forall>i < length chapters. i < k \<longrightarrow>
        call_chapterNumber (calls st ! i) = int i + 1 \<and>
        call_title (calls st ! i) = title (chapters ! i) \<and>
        call_chapterText (calls st ! i) = chapterTextOf pages (chapters ! i) \<and>
        (\<exists>ins. analyzeChapter env (int i + 1) (title (chapters ! i))
                 (chapterTextOf pages (chapters ! i)) (call_previousContext (calls st ! i)) = Inr ins
               \<and> results st ! i =
                   Some \<lparr>title = title (chapters ! i),
                         startPage = startPage (chapters ! i),
                         endPage = endPage (chapters ! i),
                         chapterNumber = int i + 1,
                         summary = ins_summary ins,
                         keyConcepts = ins_keyConcepts ins,
                         learningObjectives = ins_learningObjectives ins,
                         prerequisites = ins_prerequisites ins,
                         estimatedReadingMinutes = Finite (ins_estimatedReadingMinutes ins)\<rparr>))"


section \<open>Properties of chapter analysis and orchestration\<close>

lemma js_round_div250: "js_round (of_nat n / 250) = (int n + 125) div 250"
proof -
  have "(of_nat n / 250 + 1 / 2 :: rat) = of_int (int n + 125) / of_int 250" by (simp add: field_simps)
  then show ?thesis unfolding js_round_def by (simp only: floor_divide_of_int_eq)
qed

lemma analyzeChapter_total: "\<exists>r. analyzeChapter env n t body ctx = Inr r"
  by (auto simp: analyzeChapter_def try_catch_def split: sum.splits)

lemma fallbackMinutes_ge5: "5 \<le> fallbackMinutes body"
  by (simp add: fallbackMinutes_def)

lemma analyzeChapter_positive:
  "analyzeChapter env n t body ctx = Inr r \<Longrightarrow> 0 < ins_estimatedReadingMinutes r"
  using fallbackMinutes_ge5 [of body]
  by (auto simp: analyzeChapter_def try_catch_def fallbackInsights_def
      split: sum.splits if_splits)


declare batchLoop.simps [simp del]
declare ilog2.simps [simp del]

lemma settle_length: "settle rs ts = Inr rs' \<Longrightarrow> length rs' = length rs"
  by (induction ts arbitrary: rs) (auto simp: writeSlot_def split: sum.splits)

lemma settle_total:
  "\<forall>t \<in> set ts. \<exists>a. task_outcome t = Inr a \<Longrightarrow> \<exists>rs'. settle rs ts = Inr rs'"
  by (induction ts arbitrary: rs) (auto split: sum.splits)

lemma settle_other:
  "settle rs ts = Inr rs' \<Longrightarrow> j \<notin> task_index ` set ts \<Longrightarrow> rs' ! j = rs ! j"
  by (induction ts arbitrary: rs) (auto simp: writeSlot_def split: sum.splits)

lemma settle_written:
  "settle rs ts = Inr rs' \<Longrightarrow> distinct (map task_index ts) \<Longrightarrow> t \<in> set ts
     \<Longrightarrow> task_index t < length rs
     \<Longrightarrow> \<exists>a. task_outcome t = Inr a \<and> rs' ! task_index t = Some (slotValue t a)"
proof (induction ts arbitrary: rs)
  case Nil
  then show ?case by simp
next
  case (Cons u ts)
  from Cons.prems(1) obtain a where a: "task_outcome u = Inr a"
    and rest: "settle (writeSlot rs u a) ts = Inr rs'"
    by (auto split: sum.splits)
  show ?case
  proof (cases "t = u")
    case True
    from Cons.prems(2) have "task_index u \<notin> task_index ` set ts" by auto
    from settle_other [OF rest this] Cons.prems(4) True a
    show ?thesis by (simp add: writeSlot_def)
  next
    case False
    with Cons.prems have "t \<in> set ts" "distinct (map task_index ts)"
      "task_index t < length (writeSlot rs u a)" by (auto simp: writeSlot_def)
    from Cons.IH [OF rest this(2) this(1) this(3)] show ?thesis .
  qed
qed


lemma createTask_index [simp]: "task_index (createTask env pages chapters rs i) = i"
  by (simp add: createTask_def Let_def)

lemma createTask_outcome:
  "task_outcome (createTask env pages chapters rs i) =
     analyzeChapter env (int i + 1) (title (chapters ! i)) (chapterTextOf pages (chapters ! i))
       (previousContextAt rs i)"
  by (simp add: createTask_def Let_def)

lemma createTask_context [simp]:
  "call_previousContext (task_call (createTask env pages chapters rs i)) = previousContextAt rs i"
  by (simp add: createTask_def Let_def)

lemma slotValue_createTask:
  "slotValue (createTask env pages chapters rs i) a =
     \<lparr>title = title (chapters ! i), startPage = startPage (chapters ! i),
      endPage = endPage (chapters ! i), chapterNumber = int i + 1,
      summary = ins_summary a, keyConcepts = ins_keyConcepts a,
      learningObjectives = ins_learningObjectives a, prerequisites = ins_prerequisites a,
      estimatedReadingMinutes = Finite (ins_estimatedReadingMinutes a)\<rparr>"
  by (simp add: slotValue_def createTask_def Let_def)

lemma runBatch_effect:
  assumes len: "length (results st) = n" and be: "e \<le> n"
  shows "\<exists>st'. runBatch env pages chapters st k e = Inr st'
           \<and> length (results st') = n
           \<and> calls st' = calls st @ map (\<lambda>i. task_call (createTask env pages chapters (results st) i)) [k..<e]
           \<and> (\<forall>j. j \<notin> {k..<e} \<longrightarrow> results st' ! j = results st ! j)
           \<and> (\<forall>i \<in> {k..<e}. \<exists>a.
                  task_outcome (createTask env pages chapters (results st) i) = Inr a
                  \<and> results st' ! i
                      = Some (slotValue (createTask env pages chapters (results st) i) a))"
proof -
  define tasks where "tasks = map (createTask env pages chapters (results st)) [k..<e]"
  define settled where "settled = sort_key (\<lambda>t. completionTime env (task_index t)) tasks"
  have set_settled: "set settled = set tasks" by (simp add: settled_def)
  have idx: "map task_index tasks = [k..<e]"
    by (simp add: tasks_def comp_def)
  have "distinct (map task_index tasks)" by (simp add: idx)
  then have dist: "distinct (map task_index settled)"
    by (simp add: distinct_map settled_def)
  have img: "task_index ` set settled = {k..<e}"
    using idx set_settled by (metis set_map set_upt)
  have "\<forall>t \<in> set settled. \<exists>a. task_outcome t = Inr a"
    using analyzeChapter_total by (auto simp: set_settled tasks_def createTask_outcome)
  from settle_total [OF this] obtain rs' where rs': "settle (results st) settled = Inr rs'"
    by blast
  let ?st' = "\<lparr>results = rs', calls = calls st @ map task_call tasks\<rparr>"
  have run: "runBatch env pages chapters st k e = Inr ?st'"
    using rs' by (simp add: runBatch_def Let_def tasks_def settled_def)
  have l: "length rs' = n" using settle_length [OF rs'] len by simp
  have other: "\<forall>j. j \<notin> {k..<e} \<longrightarrow> rs' ! j = results st ! j"
    using settle_other [OF rs'] img by simp
  have written: "\<forall>i \<in> {k..<e}. \<exists>a.
                  task_outcome (createTask env pages chapters (results st) i) = Inr a
                  \<and> rs' ! i = Some (slotValue (createTask env pages chapters (results st) i) a)"
  proof
    fix i assume i: "i \<in> {k..<e}"
    let ?t = "createTask env pages chapters (results st) i"
    have "?t \<in> set settled" using i by (auto simp: set_settled tasks_def)
    moreover have "task_index ?t < length (results st)" using i be len by simp
    ultimately show "\<exists>a. task_outcome ?t = Inr a \<and> rs' ! i = Some (slotValue ?t a)"
      using settle_written [OF rs' dist, of ?t] by auto
  qed
  show ?thesis
    using run l other written by (simp add: tasks_def comp_def)
qed


lemma batch_offset: "5 dvd k \<Longrightarrow> k < i \<Longrightarrow> i < k + 5 \<Longrightarrow> i mod 5 \<noteq> (0::nat)"
  by presburger

lemma runBatch_slots_ok:
  assumes inv: "slots_ok chapters st k" and dvd: "5 dvd k" and kn: "k < length chapters"
  shows "\<exists>st'. runBatch env pages chapters st k (min (k + 5) (length chapters)) = Inr st'
            \<and> slots_ok chapters st' (k + 5)"
proof -
  let ?n = "length chapters"
  let ?e = "min (k + 5) ?n"
  let ?mk = "\<lambda>i. createTask env pages chapters (results st) i"
  from inv have len: "length (results st) = ?n" and lc: "length (calls st) = k"
    using kn by (simp_all add: slots_ok_def)
  from inv have filled: "\<And>i. i < k \<Longrightarrow> \<exists>a. results st ! i = Some a \<and> chapterNumber a = int i + 1
        \<and> title a = title (chapters ! i) \<and> startPage a = startPage (chapters ! i)
        \<and> endPage a = endPage (chapters ! i)"
    using kn by (simp add: slots_ok_def)
  from inv have hole: "\<And>i. k \<le> i \<Longrightarrow> i < ?n \<Longrightarrow> results st ! i = None"
    by (simp add: slots_ok_def)
  from inv have old: "\<And>i. i < k \<Longrightarrow> call_previousContext (calls st ! i) =
          (if 0 < i \<and> i mod 5 = 0
           then map_option (\<lambda>a. join '', '' (keyConcepts a)) (results st ! (i - 1)) else None)"
    and oldnum: "\<And>i. i < k \<Longrightarrow> call_chapterNumber (calls st ! i) = int i + 1"
    using kn by (simp_all add: slots_ok_def)
  from runBatch_effect [OF len, of ?e env pages chapters k]
  obtain st' where run: "runBatch env pages chapters st k ?e = Inr st'"
    and len': "length (results st') = ?n"
    and calls': "calls st' = calls st @ map (\<lambda>i. task_call (?mk i)) [k..<?e]"
    and other: "\<And>j. j \<notin> {k..<?e} \<Longrightarrow> results st' ! j = results st ! j"
    and written: "\<And>i. i \<in> {k..<?e} \<Longrightarrow> \<exists>a. task_outcome (?mk i) = Inr a
           \<and> results st' ! i = Some (slotValue (?mk i) a)"
    by auto
  have c1: "length (calls st') = min (k + 5) ?n"
    using calls' lc kn by simp
  have c2: "\<exists>a. results st' ! i = Some a \<and> chapterNumber a = int i + 1
        \<and> title a = title (chapters ! i) \<and> startPage a = startPage (chapters ! i)
        \<and> endPage a = endPage (chapters ! i)" if "i < ?n" "i < k + 5" for i
  proof (cases "i < k")
    case True
    then show ?thesis using other [of i] filled [of i] by simp
  next
    case False
    then have "i \<in> {k..<?e}" using that by simp
    from written [OF this] obtain a where a: "task_outcome (?mk i) = Inr a"
      "results st' ! i = Some (slotValue (?mk i) a)" by blast
    from a(2) show ?thesis by (simp add: slotValue_createTask)
  qed
  have c3: "results st' ! i = None" if "i < ?n" "k + 5 \<le> i" for i
    using other [of i] hole [of i] that by simp
  have c4: "call_previousContext (calls st' ! i) =
          (if 0 < i \<and> i mod 5 = 0
           then map_option (\<lambda>a. join '', '' (keyConcepts a)) (results st' ! (i - 1)) else None)"
    if "i < ?e" for i
  proof (cases "i < k")
    case True
    then have "calls st' ! i = calls st ! i" using calls' lc by (simp add: nth_append)
    moreover have "results st' ! (i - 1) = results st ! (i - 1)" using True other [of "i - 1"] by simp
    ultimately show ?thesis using old [OF True] by simp
  next
    case False
    then have ki: "k \<le> i" by simp
    have "i - k < ?e - k" using ki that by auto
    then have "i - k < length [k..<?e]" by simp
    then have "map (\<lambda>i. task_call (?mk i)) [k..<?e] ! (i - k) = task_call (?mk (k + (i - k)))"
      by (simp only: nth_map nth_upt length_upt)
    then have "calls st' ! i = task_call (?mk i)"
      using calls' lc ki by (simp add: nth_append)
    then have ctx: "call_previousContext (calls st' ! i) = previousContextAt (results st) i" by simp
    show ?thesis
    proof (cases "i = k")
      case True
      show ?thesis
      proof (cases "k = 0")
        case True
        with \<open>i = k\<close> ctx show ?thesis by (simp add: previousContextAt_def)
      next
        case False
        then have "k - 1 < k" by simp
        from filled [OF this] obtain a where a: "results st ! (k - 1) = Some a" by blast
        have "results st' ! (k - 1) = results st ! (k - 1)" using other [of "k - 1"] False by simp
        with a ctx True False dvd show ?thesis by (simp add: previousContextAt_def)
      qed
    next
      case False
      with ki have lt: "k < i" by simp
      have "i < k + 5" using that by simp
      from batch_offset [OF dvd lt this] have m: "i mod 5 \<noteq> 0" .
      have "i < ?n" using that by simp
      with lt have "k \<le> i - 1" "i - 1 < ?n" by linarith+
      then have "results st ! (i - 1) = None" by (rule hole)
      with ctx m show ?thesis by (simp add: previousContextAt_def)
    qed
  qed
  have c5: "call_chapterNumber (calls st' ! i) = int i + 1" if "i < ?e" for i
  proof (cases "i < k")
    case True
    then have "calls st' ! i = calls st ! i" using calls' lc by (simp add: nth_append)
    with oldnum [OF True] show ?thesis by simp
  next
    case False
    then have ki: "k \<le> i" by simp
    have "i - k < ?e - k" using ki that by auto
    then have "i - k < length [k..<?e]" by simp
    then have "map (\<lambda>i. task_call (?mk i)) [k..<?e] ! (i - k) = task_call (?mk (k + (i - k)))"
      by (simp only: nth_map nth_upt length_upt)
    then have "calls st' ! i = task_call (?mk i)"
      using calls' lc ki by (simp add: nth_append)
    then show ?thesis by (simp add: createTask_def Let_def)
  qed
  have "slots_ok chapters st' (k + 5)"
    unfolding slots_ok_def using len' c1 c2 c3 c4 c5 by simp
  with run show ?thesis by blast
qed

lemma batchLoop_slots_ok:
  "slots_ok chapters st k \<Longrightarrow> 5 dvd k
     \<Longrightarrow> \<exists>st'. batchLoop env pages chapters st k = Inr st'
            \<and> slots_ok chapters st' (length chapters)"
proof (induction env pages chapters st k rule: batchLoop.induct)
  case (1 env pages chapters st batchStart)
  show ?case
  proof (cases "batchStart < length chapters")
    case True
    from runBatch_slots_ok [OF "1.prems"(1) "1.prems"(2) True]
    obtain st1 where run: "runBatch env pages chapters st batchStart
          (min (batchStart + 5) (length chapters)) = Inr st1"
      and inv1: "slots_ok chapters st1 (batchStart + 5)" by blast
    have run': "runBatch env pages chapters st batchStart
          (min (batchStart + concurrencyLimit) (length chapters)) = Inr st1"
      using run by (simp add: concurrencyLimit_def)
    have inv1': "slots_ok chapters st1 (batchStart + concurrencyLimit)"
      using inv1 by (simp add: concurrencyLimit_def)
    have d: "5 dvd batchStart + concurrencyLimit"
      using "1.prems"(2) by (simp add: concurrencyLimit_def)
    from "1.IH" [OF True refl run' inv1' d]
    obtain st' where "batchLoop env pages chapters st1 (batchStart + concurrencyLimit) = Inr st'"
      "slots_ok chapters st' (length chapters)"
      by blast
    with run' True show ?thesis
      by (subst batchLoop.simps) simp
  next
    case False
    have "slots_ok chapters st (length chapters)"
      using "1.prems"(1) False unfolding slots_ok_def by auto
    with False show ?thesis by (subst batchLoop.simps) simp
  qed
qed

lemma slots_ok_init:
  "slots_ok chapters \<lparr>results = replicate (length chapters) None, calls = []\<rparr> 0"
  by (simp add: slots_ok_def)

lemma runAnalysis_slots_ok:
  "\<exists>st. runAnalysis env structure pages = Inr st
      \<and> slots_ok (bs_chapters structure) st (length (bs_chapters structure))"
  unfolding runAnalysis_def
  by (rule batchLoop_slots_ok [OF slots_ok_init]) simp

lemma createTask_call:
  "task_call (createTask env pages chapters rs i) =
     \<lparr>call_chapterNumber = int i + 1, call_title = title (chapters ! i),
      call_chapterText = chapterTextOf pages (chapters ! i),
      call_previousContext = previousContextAt rs i\<rparr>"
  by (simp add: createTask_def Let_def)

lemma runBatch_slots_from_calls:
  assumes inv: "slots_ok chapters st k" and ext: "slots_from_calls env pages chapters st k"
    and kn: "k < length chapters"
    and run: "runBatch env pages chapters st k (min (k + 5) (length chapters)) = Inr st'"
  shows "slots_from_calls env pages chapters st' (k + 5)"
proof -
  let ?n = "length chapters"
  let ?e = "min (k + 5) ?n"
  let ?mk = "\<lambda>i. createTask env pages chapters (results st) i"
  from inv have len: "length (results st) = ?n" and lc: "length (calls st) = k"
    using kn by (simp_all add: slots_ok_def)
  from runBatch_effect [OF len, of ?e env pages chapters k] run
  have calls': "calls st' = calls st @ map (\<lambda>i. task_call (?mk i)) [k..<?e]"
    and other: "\<And>j. j \<notin> {k..<?e} \<Longrightarrow> results st' ! j = results st ! j"
    and written: "\<And>i. i \<in> {k..<?e} \<Longrightarrow> \<exists>a. task_outcome (?mk i) = Inr a
           \<and> results st' ! i = Some (slotValue (?mk i) a)"
    by auto
  have each: "call_chapterNumber (calls st' ! i) = int i + 1 \<and>
        call_title (calls st' ! i) = title (chapters ! i) \<and>
        call_chapterText (calls st' ! i) = chapterTextOf pages (chapters ! i) \<and>
        (\<exists>ins. analyzeChapter env (int i + 1) (title (chapters ! i))
                 (chapterTextOf pages (chapters ! i)) (call_previousContext (calls st' ! i)) = Inr ins
               \<and> results st' ! i =
                   Some \<lparr>title = title (chapters ! i),
                         startPage = startPage (chapters ! i),
                         endPage = endPage (chapters ! i),
                         chapterNumber = int i + 1,
                         summary = ins_summary ins,
                         keyConcepts = ins_keyConcepts ins,
                         learningObjectives = ins_learningObjectives ins,
                         prerequisites = ins_prerequisites ins,
                         estimatedReadingMinutes = Finite (ins_estimatedReadingMinutes ins)\<rparr>)"
    if "i < ?n" "i < k + 5" for i
  proof (cases "i < k")
    case True
    then have c: "calls st' ! i = calls st ! i" using calls' lc by (simp add: nth_append)
    from True have r: "results st' ! i = results st ! i" using other [of i] by simp
    from ext that(1) True show ?thesis
      unfolding slots_from_calls_def c r by blast
  next
    case False
    then have ki: "k \<le> i" by simp
    from that have ie: "i < ?e" by simp
    have "i - k < ?e - k" using ki ie by auto
    then have "i - k < length [k..<?e]" by simp
    then have "map (\<lambda>i. task_call (?mk i)) [k..<?e] ! (i - k) = task_call (?mk (k + (i - k)))"
      by (simp only: nth_map nth_upt length_upt)
    then have c: "calls st' ! i = task_call (?mk i)"
      using calls' lc ki by (simp add: nth_append)
    from ki ie have "i \<in> {k..<?e}" by simp
    from written [OF this] obtain a where a: "task_outcome (?mk i) = Inr a"
      "results st' ! i = Some (slotValue (?mk i) a)" by blast
    from a(1) have "analyzeChapter env (int i + 1) (title (chapters ! i))
                 (chapterTextOf pages (chapters ! i)) (previousContextAt (results st) i) = Inr a"
      by (simp add: createTask_outcome)
    with a(2) show ?thesis
      unfolding c by (simp add: createTask_call slotValue_createTask)
  qed
  then show ?thesis unfolding slots_from_calls_def by blast
qed

lemma batchLoop_invariants:
  "slots_ok chapters st k \<Longrightarrow> slots_from_calls env pages chapters st k \<Longrightarrow> 5 dvd k
     \<Longrightarrow> \<exists>st'. batchLoop env pages chapters st k = Inr st'
            \<and> slots_ok chapters st' (length chapters)
            \<and> slots_from_calls env pages chapters st' (length chapters)"
proof (induction env pages chapters st k rule: batchLoop.induct)
  case (1 env pages chapters st batchStart)
  show ?case
  proof (cases "batchStart < length chapters")
    case True
    from runBatch_slots_ok [OF "1.prems"(1) "1.prems"(3) True]
    obtain st1 where run: "runBatch env pages chapters st batchStart
          (min (batchStart + 5) (length chapters)) = Inr st1"
      and inv1: "slots_ok chapters st1 (batchStart + 5)" by blast
    from runBatch_slots_from_calls [OF "1.prems"(1) "1.prems"(2) True run]
    have ext1: "slots_from_calls env pages chapters st1 (batchStart + 5)" .
    have run': "runBatch env pages chapters st batchStart
          (min (batchStart + concurrencyLimit) (length chapters)) = Inr st1"
      using run by (simp add: concurrencyLimit_def)
    have inv1': "slots_ok chapters st1 (batchStart + concurrencyLimit)"
      using inv1 by (simp add: concurrencyLimit_def)
    have ext1': "slots_from_calls env pages chapters st1 (batchStart + concurrencyLimit)"
      using ext1 by (simp add: concurrencyLimit_def)
    have d: "5 dvd batchStart + concurrencyLimit"
      using "1.prems"(3) by (simp add: concurrencyLimit_def)
    from "1.IH" [OF True refl run' inv1' ext1' d]
    obtain st' where "batchLoop env pages chapters st1 (batchStart + concurrencyLimit) = Inr st'"
      "slots_ok chapters st' (length chapters)"
      "slots_from_calls env pages chapters st' (length chapters)"
      by blast
    with run' True show ?thesis
      by (subst batchLoop.simps) simp
  next
    case False
    have "slots_ok chapters st (length chapters)"
      using "1.prems"(1) False unfolding slots_ok_def by auto
    moreover have "slots_from_calls env pages chapters st (length chapters)"
      using "1.prems"(2) False unfolding slots_from_calls_def by auto
    ultimately show ?thesis using False by (subst batchLoop.simps) simp
  qed
qed

lemma runAnalysis_invariants:
  "\<exists>st. runAnalysis env structure pages = Inr st
      \<and> slots_ok (bs_chapters structure) st (length (bs_chapters structure))
      \<and> slots_from_calls env pages (bs_chapters structure) st (length (bs_chapters structure))"
  unfolding runAnalysis_def
  by (rule batchLoop_invariants [OF slots_ok_init]) (simp_all add: slots_from_calls_def)


lemma slots_from_calls_at:
  assumes "slots_from_calls env pages chapters st k" "i < length chapters" "i < k"
  shows "\<exists>ins a. analyzeChapter env (int i + 1) (title (chapters ! i))
                 (chapterTextOf pages (chapters ! i)) (call_previousContext (calls st ! i)) = Inr ins
               \<and> results st ! i = Some a
               \<and> keyConcepts a = ins_keyConcepts ins
               \<and> estimatedReadingMinutes a = Finite (ins_estimatedReadingMinutes ins)"
proof -
  from assms obtain ins where "analyzeChapter env (int i + 1) (title (chapters ! i))
                 (chapterTextOf pages (chapters ! i)) (call_previousContext (calls st ! i)) = Inr ins"
    and "results st ! i =
                   Some \<lparr>title = title (chapters ! i),
                         startPage = startPage (chapters ! i),
                         endPage = endPage (chapters ! i),
                         chapterNumber = int i + 1,
                         summary = ins_summary ins,
                         keyConcepts = ins_keyConcepts ins,
                         learningObjectives = ins_learningObjectives ins,
                         prerequisites = ins_prerequisites ins,
                         estimatedReadingMinutes = Finite (ins_estimatedReadingMinutes ins)\<rparr>"
    unfolding slots_from_calls_def by blast
  then show ?thesis by simp
qed

lemma slots_ok_context:
  assumes "slots_ok chapters st (length chapters)" "i < length chapters"
  shows "call_previousContext (calls st ! i) =
          (if 0 < i \<and> i mod 5 = 0
           then map_option (\<lambda>a. join '', '' (keyConcepts a)) (results st ! (i - 1)) else None)"
  using assms by (simp add: slots_ok_def)

lemma analyzeChapter_conceptEnv: "analyzeChapter conceptEnv n t body ctx = Inr twoConcepts"
  by (simp add: analyzeChapter_def conceptEnv_def offlineEnv_def twoConcepts_def try_catch_def)



lemma longChapter_words_aux:
  "length (split_ws_from [] (concat (replicate n ''a '') @ ''a'')) = n + 1"
proof (induction n)
  case 0
  show ?case by (simp add: is_space_def)
next
  case (Suc n)
  have "dropWhile is_space (concat (replicate n ''a '') @ ''a'') = concat (replicate n ''a '') @ ''a''"
    by (cases n) (simp_all add: is_space_def)
  with Suc show ?case by (simp add: is_space_def)
qed

lemma wordCount_longChapter: "wordCount longChapter = 1400"
  by (simp add: wordCount_def split_ws_def longChapter_def longChapter_words_aux)

subsection \<open>The fallback of the chapter analyzer\<close>

text \<open>
  C7 (as amended). If no API key is configured, or the generation call of
  \<^verbatim>\<open>analyzeChapter\<close> throws, then \<^verbatim>\<open>analyzeChapter\<close> does not throw and returns the
  fallback: the summary \<^verbatim>\<open>Content from "<title>".\<close>, empty key concepts, learning
  objectives and prerequisites, and \<open>estimatedReadingMinutes = max(5, round(w / 250))\<close>,
  where \<open>w\<close> is the number of pieces of the text split at runs of whitespace and
  \<open>round\<close> rounds to the nearest integer, a half upwards. The value is an integer, at
  least 5.
\<close>

theorem analyzeChapter_fallback:
  assumes "\<not> hasApiKey env \<or>
           (\<exists>e. generateChapterAnalysis env (chapterPrompt n t chapterText ctx) = Inl e)"
  shows "analyzeChapter env n t chapterText ctx =
           Inr \<lparr>ins_summary = ''Content from '' @ [CHR 0x22] @ t @ [CHR 0x22] @ ''.'',
                ins_keyConcepts = [],
                ins_learningObjectives = [],
                ins_prerequisites = [],
                ins_estimatedReadingMinutes =
                  of_int (max 5 (js_round (of_nat (wordCount chapterText) / 250)))\<rparr>
         \<and> js_round (of_nat (wordCount chapterText) / 250) = (int (wordCount chapterText) + 125) div 250
         \<and> (5::rat) \<le> of_int (max 5 (js_round (of_nat (wordCount chapterText) / 250)))"
  using assms
  by (auto simp: analyzeChapter_def try_catch_def fallbackInsights_def fallbackSummary_def
      fallbackMinutes_def dquote_def js_round_div250)

text \<open>C7, instance: a key is configured and the generation call throws.\<close>

theorem analyzeChapter_fallback_witness:
  "(\<exists>e. generateChapterAnalysis failingEnv (chapterPrompt 3 ''Trees'' ''alpha beta gamma'' None) = Inl e)
   \<and> analyzeChapter failingEnv 3 ''Trees'' ''alpha beta gamma'' None =
       Inr \<lparr>ins_summary = ''Content from '' @ [CHR 0x22] @ ''Trees'' @ [CHR 0x22] @ ''.'',
            ins_keyConcepts = [], ins_learningObjectives = [], ins_prerequisites = [],
            ins_estimatedReadingMinutes = 5\<rparr>"
proof -
  have h: "\<exists>e. generateChapterAnalysis failingEnv (chapterPrompt 3 ''Trees'' ''alpha beta gamma'' None) = Inl e"
    by (simp add: failingEnv_def offlineEnv_def)
  have w: "wordCount ''alpha beta gamma'' = 3"
    by (simp add: wordCount_def split_ws_def is_space_def)
  from h analyzeChapter_fallback [of failingEnv 3 "''Trees''" "''alpha beta gamma''" None]
  show ?thesis by (simp add: w)
qed

text \<open>
  C7 as stated gives \<open>max(5, wordCount / 250)\<close>. On a chapter of 1400 words the code
  returns 6, which is neither \<open>max(5, 1400 / 250) = 5.6\<close> nor, with an integer
  quotient, \<open>max(5, 5) = 5\<close>.
\<close>

theorem analyzeChapter_rounding_counterexample:
  "analyzeChapter offlineEnv 1 ''Intro'' longChapter None =
     Inr \<lparr>ins_summary = ''Content from '' @ [CHR 0x22] @ ''Intro'' @ [CHR 0x22] @ ''.'',
          ins_keyConcepts = [], ins_learningObjectives = [], ins_prerequisites = [],
          ins_estimatedReadingMinutes = 6\<rparr>
   \<and> wordCount longChapter = 1400
   \<and> (6::rat) \<noteq> max 5 (of_nat (wordCount longChapter) / 250)
   \<and> (6::int) \<noteq> max 5 (int (wordCount longChapter) div 250)"
proof -
  have "js_round (of_nat (wordCount longChapter) / 250) = (int 1400 + 125) div 250"
    by (simp only: js_round_div250 wordCount_longChapter)
  then have r: "fallbackMinutes longChapter = 6"
    by (simp add: fallbackMinutes_def)
  have "analyzeChapter offlineEnv 1 ''Intro'' longChapter None =
     Inr \<lparr>ins_summary = ''Content from '' @ [CHR 0x22] @ ''Intro'' @ [CHR 0x22] @ ''.'',
          ins_keyConcepts = [], ins_learningObjectives = [], ins_prerequisites = [],
          ins_estimatedReadingMinutes = 6\<rparr>"
    by (simp add: analyzeChapter_def offlineEnv_def fallbackInsights_def fallbackSummary_def
        dquote_def r)
  then show ?thesis by (simp add: wordCount_longChapter)
qed


subsection \<open>Numbering and order of the orchestrator's output\<close>

text \<open>
  C3. For every structure and page list, and whatever the order in which the
  analyses of a batch settle, \<^verbatim>\<open>analyzeChaptersWithContext\<close> returns a list with one
  filled slot for each input chapter boundary; the entry at index \<open>i\<close> has
  \<open>chapterNumber = i + 1\<close> and the title and page range of the input chapter at
  index \<open>i\<close>.
\<close>

theorem analyzeChaptersWithContext_numbering:
  "\<exists>rs. analyzeChaptersWithContext env structure pages = Inr rs
        \<and> length rs = length (bs_chapters structure)
        \<and> (\<forall>i < length rs. \<exists>a. rs ! i = Some a
               \<and> chapterNumber a = int i + 1
               \<and> title a = title (bs_chapters structure ! i)
               \<and> startPage a = startPage (bs_chapters structure ! i)
               \<and> endPage a = endPage (bs_chapters structure ! i))"
proof -
  from runAnalysis_slots_ok [of env "structure" pages]
  obtain st where run: "runAnalysis env structure pages = Inr st"
    and ok: "slots_ok (bs_chapters structure) st (length (bs_chapters structure))" by blast
  from run have r: "analyzeChaptersWithContext env structure pages = Inr (results st)"
    by (simp add: analyzeChaptersWithContext_def)
  from ok have l: "length (results st) = length (bs_chapters structure)"
    by (simp add: slots_ok_def)
  have e: "\<exists>a. results st ! i = Some a
               \<and> chapterNumber a = int i + 1
               \<and> title a = title (bs_chapters structure ! i)
               \<and> startPage a = startPage (bs_chapters structure ! i)
               \<and> endPage a = endPage (bs_chapters structure ! i)"
    if "i < length (results st)" for i
  proof -
    from that l have "i < length (bs_chapters structure)" by simp
    with ok show ?thesis unfolding slots_ok_def by blast
  qed
  from r l e show ?thesis by simp
qed

text \<open>C3, instance: twelve chapters whose analyses settle in reverse order inside each batch.\<close>

theorem analyzeChaptersWithContext_numbering_witness:
  "\<exists>rs. analyzeChaptersWithContext conceptEnv twelveChapters twelvePages = Inr rs
        \<and> length rs = 12
        \<and> (\<exists>a. rs ! 11 = Some a \<and> chapterNumber a = 12
               \<and> title a = ''Part'' \<and> startPage a = 11 \<and> endPage a = 11)"
proof -
  have c: "bs_chapters twelveChapters ! 11 = \<lparr>title = ''Part'', startPage = 11, endPage = 11\<rparr>"
    by (simp add: twelveChapters_def)
  have l: "length (bs_chapters twelveChapters) = 12"
    by (simp add: twelveChapters_def)
  from analyzeChaptersWithContext_numbering [of conceptEnv twelveChapters twelvePages]
  obtain rs where rs: "analyzeChaptersWithContext conceptEnv twelveChapters twelvePages = Inr rs"
    "length rs = length (bs_chapters twelveChapters)"
    "\<forall>i < length rs. \<exists>a. rs ! i = Some a
               \<and> chapterNumber a = int i + 1
               \<and> title a = title (bs_chapters twelveChapters ! i)
               \<and> startPage a = startPage (bs_chapters twelveChapters ! i)
               \<and> endPage a = endPage (bs_chapters twelveChapters ! i)" by blast
  from rs(2) l have h: "11 < length rs" by simp
  note rs(3) [rule_format, OF h]
  with rs(1) rs(2) l show ?thesis by (simp add: c)
qed

subsection \<open>Context across batches\<close>

text \<open>
  C4. In a run over 12 chapters (batch size 5) the call for chapter index 0 gets
  no previous-chapter context, and the call for chapter index 5 gets the joined
  key concepts that \<^verbatim>\<open>analyzeChapter\<close> returned for chapter index 4, which are the
  key concepts stored in slot 4. For any number of chapters: a call gets a context
  only if its index is positive and its predecessor lies in an earlier batch; in
  that case the context is the joined key concepts that \<^verbatim>\<open>analyzeChapter\<close> returned
  for the predecessor; and every slot holds the key concepts that \<^verbatim>\<open>analyzeChapter\<close>
  returned for its chapter when called with the context recorded for it.
\<close>

theorem batch_context_propagation:
  "\<exists>st. runAnalysis env structure pages = Inr st
        \<and> length (calls st) = length (bs_chapters structure)
        \<and> length (results st) = length (bs_chapters structure)
        \<and> (length (bs_chapters structure) = 12 \<longrightarrow>
             call_previousContext (calls st ! 0) = None
             \<and> (\<exists>ins a. analyzeChapter env 5 (title (bs_chapters structure ! 4))
                           (chapterTextOf pages (bs_chapters structure ! 4)) None = Inr ins
                    \<and> results st ! 4 = Some a
                    \<and> keyConcepts a = ins_keyConcepts ins
                    \<and> call_previousContext (calls st ! 5) = Some (join '', '' (keyConcepts a))
                    \<and> call_previousContext (calls st ! 5) = Some (join '', '' (ins_keyConcepts ins))))
        \<and> (\<forall>i < length (bs_chapters structure).
              (call_previousContext (calls st ! i) \<noteq> None
                 \<longrightarrow> 0 < i \<and> (i - 1) div 5 < i div 5)
              \<and> (0 < i \<and> (i - 1) div 5 < i div 5
                 \<longrightarrow> (\<exists>ins a. analyzeChapter env (int i) (title (bs_chapters structure ! (i - 1)))
                               (chapterTextOf pages (bs_chapters structure ! (i - 1)))
                               (call_previousContext (calls st ! (i - 1))) = Inr ins
                        \<and> results st ! (i - 1) = Some a
                        \<and> keyConcepts a = ins_keyConcepts ins
                        \<and> call_previousContext (calls st ! i) = Some (join '', '' (keyConcepts a))
                        \<and> call_previousContext (calls st ! i)
                            = Some (join '', '' (ins_keyConcepts ins))))
              \<and> (\<exists>ins a. analyzeChapter env (int i + 1) (title (bs_chapters structure ! i))
                            (chapterTextOf pages (bs_chapters structure ! i))
                            (call_previousContext (calls st ! i)) = Inr ins
                     \<and> results st ! i = Some a
                     \<and> keyConcepts a = ins_keyConcepts ins))"
proof -
  let ?chs = "bs_chapters structure"
  let ?n = "length ?chs"
  from runAnalysis_invariants [of env "structure" pages]
  obtain st where run: "runAnalysis env structure pages = Inr st"
    and ok: "slots_ok ?chs st ?n"
    and ext: "slots_from_calls env pages ?chs st ?n" by blast
  from ok have lc: "length (calls st) = ?n" and lr: "length (results st) = ?n"
    by (simp_all add: slots_ok_def)
  note ctx = slots_ok_context [OF ok]
  have stored: "\<exists>ins a. analyzeChapter env (int i + 1) (title (?chs ! i))
                 (chapterTextOf pages (?chs ! i)) (call_previousContext (calls st ! i)) = Inr ins
               \<and> results st ! i = Some a
               \<and> keyConcepts a = ins_keyConcepts ins" if "i < ?n" for i
    using slots_from_calls_at [OF ext that that] by blast
  have pred: "\<exists>ins a. analyzeChapter env (int i) (title (?chs ! (i - 1)))
                               (chapterTextOf pages (?chs ! (i - 1)))
                               (call_previousContext (calls st ! (i - 1))) = Inr ins
                        \<and> results st ! (i - 1) = Some a
                        \<and> keyConcepts a = ins_keyConcepts ins
                        \<and> call_previousContext (calls st ! i) = Some (join '', '' (keyConcepts a))
                        \<and> call_previousContext (calls st ! i)
                            = Some (join '', '' (ins_keyConcepts ins))"
    if i: "i < ?n" and first: "0 < i" "i mod 5 = 0" for i
  proof -
    from i first have p: "i - 1 < ?n" by simp
    from first have e: "int (i - 1) + 1 = int i" by simp
    from stored [OF p] obtain ins a where
      a: "analyzeChapter env (int (i - 1) + 1) (title (?chs ! (i - 1)))
                 (chapterTextOf pages (?chs ! (i - 1))) (call_previousContext (calls st ! (i - 1))) = Inr ins"
      "results st ! (i - 1) = Some a" "keyConcepts a = ins_keyConcepts ins"
      by blast
    from ctx [OF i] first a(2)
    have c: "call_previousContext (calls st ! i) = Some (join '', '' (keyConcepts a))" by simp
    from a(1) have a1: "analyzeChapter env (int i) (title (?chs ! (i - 1)))
                 (chapterTextOf pages (?chs ! (i - 1))) (call_previousContext (calls st ! (i - 1))) = Inr ins"
      by (simp only: e)
    from c a(3) have c': "call_previousContext (calls st ! i) = Some (join '', '' (ins_keyConcepts ins))"
      by simp
    show ?thesis
      by (rule exI [of _ ins], rule exI [of _ a]) (intro conjI a1 a(2) a(3) c c')
  qed
  have twelve: "call_previousContext (calls st ! 0) = None
             \<and> (\<exists>ins a. analyzeChapter env 5 (title (?chs ! 4))
                           (chapterTextOf pages (?chs ! 4)) None = Inr ins
                    \<and> results st ! 4 = Some a
                    \<and> keyConcepts a = ins_keyConcepts ins
                    \<and> call_previousContext (calls st ! 5) = Some (join '', '' (keyConcepts a))
                    \<and> call_previousContext (calls st ! 5) = Some (join '', '' (ins_keyConcepts ins)))"
    if "?n = 12"
  proof -
    from that have h: "0 < ?n" "4 < ?n" "5 < ?n" by simp_all
    from ctx [OF h(1)] have z: "call_previousContext (calls st ! 0) = None" by simp
    from ctx [OF h(2)] have four: "call_previousContext (calls st ! 4) = None" by simp
    from pred [OF h(3)] four
    have "\<exists>ins a. analyzeChapter env 5 (title (?chs ! 4))
                           (chapterTextOf pages (?chs ! 4)) None = Inr ins
                    \<and> results st ! 4 = Some a
                    \<and> keyConcepts a = ins_keyConcepts ins
                    \<and> call_previousContext (calls st ! 5) = Some (join '', '' (keyConcepts a))
                    \<and> call_previousContext (calls st ! 5) = Some (join '', '' (ins_keyConcepts ins))"
      by simp
    with z show ?thesis by (rule conjI)
  qed
  have general: "(call_previousContext (calls st ! i) \<noteq> None
                 \<longrightarrow> 0 < i \<and> (i - 1) div 5 < i div 5)
              \<and> (0 < i \<and> (i - 1) div 5 < i div 5
                 \<longrightarrow> (\<exists>ins a. analyzeChapter env (int i) (title (?chs ! (i - 1)))
                               (chapterTextOf pages (?chs ! (i - 1)))
                               (call_previousContext (calls st ! (i - 1))) = Inr ins
                        \<and> results st ! (i - 1) = Some a
                        \<and> keyConcepts a = ins_keyConcepts ins
                        \<and> call_previousContext (calls st ! i) = Some (join '', '' (keyConcepts a))
                        \<and> call_previousContext (calls st ! i)
                            = Some (join '', '' (ins_keyConcepts ins))))
              \<and> (\<exists>ins a. analyzeChapter env (int i + 1) (title (?chs ! i))
                            (chapterTextOf pages (?chs ! i))
                            (call_previousContext (calls st ! i)) = Inr ins
                     \<and> results st ! i = Some a
                     \<and> keyConcepts a = ins_keyConcepts ins)"
    if i: "i < ?n" for i
  proof (cases "0 < i \<and> i mod 5 = 0")
    case True
    then have e: "(i - 1) div 5 < i div 5" by presburger
    from True have f: "0 < i" "i mod 5 = 0" by simp_all
    note p = pred [OF i f]
    from True e p stored [OF i] show ?thesis by (intro conjI impI) simp_all
  next
    case False
    with ctx [OF i] have none: "call_previousContext (calls st ! i) = None" by simp
    from False have ne: "\<not> (0 < i \<and> (i - 1) div 5 < i div 5)" by presburger
    from none ne stored [OF i] show ?thesis by (intro conjI impI) simp_all
  qed
  from twelve have t: "?n = 12 \<longrightarrow>
             call_previousContext (calls st ! 0) = None
             \<and> (\<exists>ins a. analyzeChapter env 5 (title (?chs ! 4))
                           (chapterTextOf pages (?chs ! 4)) None = Inr ins
                    \<and> results st ! 4 = Some a
                    \<and> keyConcepts a = ins_keyConcepts ins
                    \<and> call_previousContext (calls st ! 5) = Some (join '', '' (keyConcepts a))
                    \<and> call_previousContext (calls st ! 5) = Some (join '', '' (ins_keyConcepts ins)))"
    by (rule impI)
  from general have g: "\<forall>i < ?n.
              (call_previousContext (calls st ! i) \<noteq> None
                 \<longrightarrow> 0 < i \<and> (i - 1) div 5 < i div 5)
              \<and> (0 < i \<and> (i - 1) div 5 < i div 5
                 \<longrightarrow> (\<exists>ins a. analyzeChapter env (int i) (title (?chs ! (i - 1)))
                               (chapterTextOf pages (?chs ! (i - 1)))
                               (call_previousContext (calls st ! (i - 1))) = Inr ins
                        \<and> results st ! (i - 1) = Some a
                        \<and> keyConcepts a = ins_keyConcepts ins
                        \<and> call_previousContext (calls st ! i) = Some (join '', '' (keyConcepts a))
                        \<and> call_previousContext (calls st ! i)
                            = Some (join '', '' (ins_keyConcepts ins))))
              \<and> (\<exists>ins a. analyzeChapter env (int i + 1) (title (?chs ! i))
                            (chapterTextOf pages (?chs ! i))
                            (call_previousContext (calls st ! i)) = Inr ins
                     \<and> results st ! i = Some a
                     \<and> keyConcepts a = ins_keyConcepts ins)"
    by (intro allI impI)
  show ?thesis
    by (rule exI [of _ st]) (intro conjI run lc lr t g)
qed


text \<open>
  C4, instance: twelve chapters whose analyses all return the key concepts
  \<^verbatim>\<open>sets\<close> and \<^verbatim>\<open>maps\<close>; the calls with index 5 and 10 get the context
  \<^verbatim>\<open>sets, maps\<close>.
\<close>

theorem batch_context_propagation_witness:
  "\<exists>st. runAnalysis conceptEnv twelveChapters twelvePages = Inr st
        \<and> length (calls st) = 12
        \<and> call_previousContext (calls st ! 0) = None
        \<and> (\<exists>a. results st ! 4 = Some a \<and> keyConcepts a = [''sets'', ''maps''])
        \<and> call_previousContext (calls st ! 5) = Some ''sets, maps''
        \<and> call_previousContext (calls st ! 10) = Some ''sets, maps''"
proof -
  have l: "length (bs_chapters twelveChapters) = 12"
    by (simp add: twelveChapters_def)
  have j: "join '', '' (ins_keyConcepts twoConcepts) = ''sets, maps''"
    by (simp add: twoConcepts_def)
  have k: "ins_keyConcepts twoConcepts = [''sets'', ''maps'']"
    by (simp add: twoConcepts_def)
  from batch_context_propagation [of conceptEnv twelveChapters twelvePages]
  obtain st where run: "runAnalysis conceptEnv twelveChapters twelvePages = Inr st"
    and lc: "length (calls st) = length (bs_chapters twelveChapters)"
    and t: "length (bs_chapters twelveChapters) = 12 \<longrightarrow>
             call_previousContext (calls st ! 0) = None
             \<and> (\<exists>ins a. analyzeChapter conceptEnv 5 (title (bs_chapters twelveChapters ! 4))
                           (chapterTextOf twelvePages (bs_chapters twelveChapters ! 4)) None = Inr ins
                    \<and> results st ! 4 = Some a
                    \<and> keyConcepts a = ins_keyConcepts ins
                    \<and> call_previousContext (calls st ! 5) = Some (join '', '' (keyConcepts a))
                    \<and> call_previousContext (calls st ! 5) = Some (join '', '' (ins_keyConcepts ins)))"
    and g: "\<forall>i < length (bs_chapters twelveChapters).
              (call_previousContext (calls st ! i) \<noteq> None
                 \<longrightarrow> 0 < i \<and> (i - 1) div 5 < i div 5)
              \<and> (0 < i \<and> (i - 1) div 5 < i div 5
                 \<longrightarrow> (\<exists>ins a. analyzeChapter conceptEnv (int i) (title (bs_chapters twelveChapters ! (i - 1)))
                               (chapterTextOf twelvePages (bs_chapters twelveChapters ! (i - 1)))
                               (call_previousContext (calls st ! (i - 1))) = Inr ins
                        \<and> results st ! (i - 1) = Some a
                        \<and> keyConcepts a = ins_keyConcepts ins
                        \<and> call_previousContext (calls st ! i) = Some (join '', '' (keyConcepts a))
                        \<and> call_previousContext (calls st ! i)
                            = Some (join '', '' (ins_keyConcepts ins))))
              \<and> (\<exists>ins a. analyzeChapter conceptEnv (int i + 1) (title (bs_chapters twelveChapters ! i))
                            (chapterTextOf twelvePages (bs_chapters twelveChapters ! i))
                            (call_previousContext (calls st ! i)) = Inr ins
                     \<and> results st ! i = Some a
                     \<and> keyConcepts a = ins_keyConcepts ins)"
    by (elim exE conjE)
  from t l have zero: "call_previousContext (calls st ! 0) = None" by (elim impE conjE) simp_all
  from t l obtain ins a where five:
      "analyzeChapter conceptEnv 5 (title (bs_chapters twelveChapters ! 4))
         (chapterTextOf twelvePages (bs_chapters twelveChapters ! 4)) None = Inr ins"
      "results st ! 4 = Some a" "keyConcepts a = ins_keyConcepts ins"
      "call_previousContext (calls st ! 5) = Some (join '', '' (ins_keyConcepts ins))"
    by (elim impE conjE exE) simp_all
  from five(1) have i5: "ins = twoConcepts" by (simp add: analyzeChapter_conceptEnv)
  from five(2) five(3) i5 k have r4: "\<exists>a. results st ! 4 = Some a \<and> keyConcepts a = [''sets'', ''maps'']"
    by simp
  from five(4) i5 j have c5: "call_previousContext (calls st ! 5) = Some ''sets, maps''" by simp
  have h: "(10::nat) < length (bs_chapters twelveChapters)" using l by simp
  have b: "0 < (10::nat) \<and> (10 - 1) div 5 < (10::nat) div 5" by simp
  from g [rule_format, OF h, THEN conjunct2, THEN conjunct1, rule_format, OF b]
  obtain ins' where ten: "analyzeChapter conceptEnv (int 10) (title (bs_chapters twelveChapters ! (10 - 1)))
                               (chapterTextOf twelvePages (bs_chapters twelveChapters ! (10 - 1)))
                               (call_previousContext (calls st ! (10 - 1))) = Inr ins'"
      "call_previousContext (calls st ! 10) = Some (join '', '' (ins_keyConcepts ins'))"
    by (elim exE conjE)
  from ten(1) have "ins' = twoConcepts" by (simp add: analyzeChapter_conceptEnv)
  with ten(2) j have c10: "call_previousContext (calls st ! 10) = Some ''sets, maps''" by simp
  from lc l have lc12: "length (calls st) = 12" by simp
  show ?thesis
    by (rule exI [of _ st]) (intro conjI run lc12 zero r4 c5 c10)
qed

subsection \<open>Context inside a batch\<close>




section \<open>Properties of structure detection\<close>

declare fixedChunksFrom.simps [simp del]
declare sampleIndicesFrom.simps [simp del]

lemma try_catch_total: "\<exists>v. try_catch body (Inr h) = Inr v"
  by (simp add: try_catch_def split: sum.splits)

lemma detectFromPdfLinks_total: "\<exists>r. detectFromPdfLinks env buf = Inr r"
  unfolding detectFromPdfLinks_def by (rule try_catch_total)

lemma detectFromTitleMatching_total: "\<exists>r. detectFromTitleMatching env pages = Inr r"
  unfolding detectFromTitleMatching_def Let_def
  by (auto intro!: try_catch_total)

lemma detectFromLlmSampling_total: "\<exists>r. detectFromLlmSampling env pages = Inr r"
  unfolding detectFromLlmSampling_def
  by (auto intro!: try_catch_total)

lemma extractBookMetadata_total: "\<exists>m. extractBookMetadata env pages = Inr m"
  unfolding extractBookMetadata_def Let_def
  by (auto intro!: try_catch_total)

lemma withMetadata_total: "\<exists>s. withMetadata env pages chapters method = Inr s"
  using extractBookMetadata_total [of env pages]
  by (auto simp: withMetadata_def)

lemma tier4_total: "\<exists>s. tier4 env pages = Inr s"
  unfolding tier4_def by (rule withMetadata_total)

lemma tier3_total: "\<exists>s. tier3 env pages = Inr s"
  using detectFromLlmSampling_total [of env pages] withMetadata_total tier4_total
  by (auto simp: tier3_def split: option.splits)

lemma tier2_total: "\<exists>s. tier2 env pages = Inr s"
  using detectFromTitleMatching_total [of env pages] tier3_total
  by (auto simp: tier2_def split: option.splits)

text \<open>
  C8. \<^verbatim>\<open>detectBookStructure\<close> never fails: for every environment, buffer and page list
  it returns a structure. A throwing PDF parser, page read, generation call or
  pattern compilation is caught inside its tier and counts as no result.
\<close>

theorem detectBookStructure_total:
  "\<exists>s. detectBookStructure env buf pages = Inr s"
  using detectFromPdfLinks_total [of env buf] withMetadata_total tier2_total
  by (auto simp: detectBookStructure_def split: option.splits)


lemma linkOfAnnotation_not_link:
  "annot_subtype a \<noteq> ''Link'' \<Longrightarrow> linkOfAnnotation a = None"
  by (simp add: linkOfAnnotation_def)

lemma map_filter_no_links:
  "\<forall>a \<in> set annots. annot_subtype a \<noteq> ''Link'' \<Longrightarrow> List.map_filter linkOfAnnotation annots = []"
  by (induction annots) (simp_all add: List.map_filter_simps linkOfAnnotation_not_link)

lemma scanPages_no_links:
  assumes "\<forall>i annots. getAnnotations pdf i = Inr annots
             \<longrightarrow> (\<forall>a \<in> set annots. annot_subtype a \<noteq> ''Link'')"
  shows "scanPages pdf is = Inr links \<Longrightarrow> links = []"
proof (induction "is" arbitrary: links)
  case Nil
  then show ?case by simp
next
  case (Cons i rest)
  from Cons.prems obtain annots ls where a: "getAnnotations pdf i = Inr annots"
    and r: "scanPages pdf rest = Inr ls"
    and l: "links = List.map_filter linkOfAnnotation annots @ ls"
    by (auto split: sum.splits)
  from assms a have "List.map_filter linkOfAnnotation annots = []"
    by (intro map_filter_no_links) blast
  with Cons.IH [OF r] l show ?case by simp
qed

lemma detectFromPdfLinks_no_links:
  assumes "\<forall>pdf. getDocumentProxy env buf = Inr pdf
             \<longrightarrow> (\<forall>i annots. getAnnotations pdf i = Inr annots
                    \<longrightarrow> (\<forall>a \<in> set annots. annot_subtype a \<noteq> ''Link''))"
  shows "detectFromPdfLinks env buf = Inr None"
proof (cases "getDocumentProxy env buf")
  case (Inl e)
  then show ?thesis by (simp add: detectFromPdfLinks_def try_catch_def)
next
  case (Inr pdf)
  with assms have nl: "\<forall>i annots. getAnnotations pdf i = Inr annots
                    \<longrightarrow> (\<forall>a \<in> set annots. annot_subtype a \<noteq> ''Link'')" by blast
  show ?thesis
  proof (cases "scanPages pdf [1..<min 15 (numPages pdf) + 1]")
    case (Inl e)
    with \<open>getDocumentProxy env buf = Inr pdf\<close> show ?thesis
      by (simp add: detectFromPdfLinks_def try_catch_def Let_def)
  next
    case (Inr links)
    from scanPages_no_links [OF nl Inr] have "links = []" .
    with Inr \<open>getDocumentProxy env buf = Inr pdf\<close> show ?thesis
      by (simp add: detectFromPdfLinks_def try_catch_def Let_def)
  qed
qed

lemma step30: "i < (n::nat) \<Longrightarrow> (n - i + 29) div 30 = Suc ((n - (i + 30) + 29) div 30)"
proof (cases "i + 30 \<le> n")
  case True
  then have "n - i + 29 = (n - (i + 30) + 29) + 30" by simp
  then show ?thesis by (simp only: div_add_self2)
next
  case False
  assume "i < n"
  with False have a: "n - (i + 30) = 0" and b: "n - i + 29 = (n - i - 1) + 30" and c: "n - i - 1 < 30"
    by simp_all
  from b have "(n - i + 29) div 30 = Suc ((n - i - 1) div 30)" by (simp only: div_add_self2)
  with a c show ?thesis by simp
qed

lemma fixedChunksFrom_length:
  "length (fixedChunksFrom pages acc i) = length acc + (length pages - i + 29) div 30"
proof (induction pages acc i rule: fixedChunksFrom.induct)
  case (1 pages chapters i)
  show ?case
  proof (cases "i < length pages")
    case True
    from "1.IH" [OF True] step30 [OF True] True show ?thesis
      by (subst fixedChunksFrom.simps) simp
  next
    case False
    then show ?thesis by (subst fixedChunksFrom.simps) simp
  qed
qed

lemma ceiling_div30: "\<lceil>(of_nat n :: rat) / 30\<rceil> = (int n + 29) div 30"
proof (rule ceiling_unique)
  let ?q = "(int n + 29) div 30"
  have e: "int n + 29 = 30 * ?q + (int n + 29) mod 30" by simp
  have m: "0 \<le> (int n + 29) mod 30" "(int n + 29) mod 30 < 30" by simp_all
  from e m have lo: "30 * ?q - 30 < int n" and hi: "int n \<le> 30 * ?q" by linarith+
  from lo have "(of_int (30 * ?q - 30) :: rat) < of_int (int n)" by (simp only: of_int_less_iff)
  then show "of_int ?q - 1 < (of_nat n :: rat) / 30" by (simp add: field_simps)
  from hi have "(of_int (int n) :: rat) \<le> of_int (30 * ?q)" by (simp only: of_int_le_iff)
  then show "(of_nat n :: rat) / 30 \<le> of_int ?q" by (simp add: field_simps)
qed

lemma fixedChunks_count: "int (length (fixedChunks pages)) = \<lceil>(of_nat (length pages) :: rat) / 30\<rceil>"
  by (simp add: fixedChunks_def fixedChunksFrom_length ceiling_div30 zdiv_int)

lemma fixedChunks_three:
  "length pages = 3 \<Longrightarrow> fixedChunks pages = [\<lparr>title = ''Section 1'', startPage = 0, endPage = 2\<rparr>]"
  by (simp add: fixedChunks_def fixedChunksFrom.simps digit_char_def)

text \<open>
  C9. With no API key and a PDF that has no link annotation (or cannot be parsed),
  \<^verbatim>\<open>detectBookStructure\<close> returns the method \<^verbatim>\<open>fixed-chunks\<close> with the chapters of
  \<^verbatim>\<open>fixedChunks\<close>, whose number is \<open>ceil(totalPages / 30)\<close>; for three pages they are
  the single chapter \<^verbatim>\<open>Section 1\<close> over the pages 0 to 2.
\<close>

theorem fallthrough_to_fixed_chunks:
  assumes "\<not> hasApiKey env"
    and "\<forall>pdf. getDocumentProxy env buf = Inr pdf
             \<longrightarrow> (\<forall>i annots. getAnnotations pdf i = Inr annots
                    \<longrightarrow> (\<forall>a \<in> set annots. annot_subtype a \<noteq> ''Link''))"
  shows "detectBookStructure env buf pages =
           Inr \<lparr>bs_title = ''Untitled Book'', bs_author = None,
                bs_chapters = fixedChunks pages, bs_detectionMethod = FixedChunks\<rparr>
         \<and> int (length (fixedChunks pages)) = \<lceil>(of_nat (length pages) :: rat) / 30\<rceil>
         \<and> (length pages = 3
              \<longrightarrow> fixedChunks pages = [\<lparr>title = ''Section 1'', startPage = 0, endPage = 2\<rparr>])"
proof -
  from assms(1) have "tier2 env pages =
           Inr \<lparr>bs_title = ''Untitled Book'', bs_author = None,
                bs_chapters = fixedChunks pages, bs_detectionMethod = FixedChunks\<rparr>"
    by (simp add: tier2_def tier3_def tier4_def detectFromTitleMatching_def
        detectFromLlmSampling_def withMetadata_def extractBookMetadata_def untitledBook_def)
  with detectFromPdfLinks_no_links [OF assms(2)] show ?thesis
    by (simp add: detectBookStructure_def fixedChunks_count fixedChunks_three)
qed

text \<open>C9, instance: the three-page PDF with one page of text and no API key.\<close>

theorem fallthrough_to_fixed_chunks_witness:
  "\<not> hasApiKey plainPdfEnv
   \<and> length loremPages = 3
   \<and> detectBookStructure plainPdfEnv [] loremPages =
       Inr \<lparr>bs_title = ''Untitled Book'', bs_author = None,
            bs_chapters = [\<lparr>title = ''Section 1'', startPage = 0, endPage = 2\<rparr>],
            bs_detectionMethod = FixedChunks\<rparr>"
proof -
  have k: "\<not> hasApiKey plainPdfEnv"
    by (simp add: plainPdfEnv_def offlineEnv_def)
  have n: "\<forall>pdf. getDocumentProxy plainPdfEnv [] = Inr pdf
             \<longrightarrow> (\<forall>i annots. getAnnotations pdf i = Inr annots
                    \<longrightarrow> (\<forall>a \<in> set annots. annot_subtype a \<noteq> ''Link''))"
    by (auto simp: plainPdfEnv_def offlineEnv_def threePagePdf_def noteAnnotation_def)
  have l: "length loremPages = 3" by (simp add: loremPages_def)
  from fallthrough_to_fixed_chunks [OF k n, of loremPages] k l show ?thesis by simp
qed

text \<open>
  C1 states that every returned structure has its chapters sorted by start page,
  without overlap, and with \<open>endPage \<ge> startPage\<close>. The title-matching tier breaks
  it on a book whose contents page prints the chapter titles: both titles are
  first found on the contents page, page 0, so after the sort the first chapter is
  closed at the page before the second one's start, which is page \<open>-1\<close>.
\<close>

theorem title_match_empty_range:
  "detectBookStructure tocEnv [] tocPages =
     Inr \<lparr>bs_title = ''A Course in Logic'', bs_author = None,
          bs_chapters =
            [\<lparr>title = ''Introduction to Logic'', startPage = 0, endPage = - 1\<rparr>,
             \<lparr>title = ''Advanced Proof Methods'', startPage = 0, endPage = 2\<rparr>],
          bs_detectionMethod = TitleMatch\<rparr>"
  by code_simp


section \<open>Properties of plan editing\<close>

lemma js_includes_iff: "js_includes s k \<longleftrightarrow> (\<exists>p q. s = p @ k @ q)"
proof (induction s)
  case Nil
  show ?case by auto
next
  case (Cons c cs)
  show ?case
  proof
    assume "js_includes (c # cs) k"
    then consider "prefix k (c # cs)" | "js_includes cs k" by auto
    then show "\<exists>p q. c # cs = p @ k @ q"
    proof cases
      case 1
      then obtain q where "c # cs = k @ q" by (auto simp: prefix_def)
      then have "c # cs = [] @ k @ q" by simp
      then show ?thesis by blast
    next
      case 2
      with Cons.IH obtain p q where "cs = p @ k @ q" by blast
      then have "c # cs = (c # p) @ k @ q" by simp
      then show ?thesis by blast
    qed
  next
    assume "\<exists>p q. c # cs = p @ k @ q"
    then obtain p q where e: "c # cs = p @ k @ q" by blast
    show "js_includes (c # cs) k"
    proof (cases p)
      case Nil
      with e have "prefix k (c # cs)" by (simp add: prefix_def)
      then show ?thesis by simp
    next
      case (Cons d p')
      with e have "cs = p' @ k @ q" by simp
      with Cons.IH have "js_includes cs k" by blast
      then show ?thesis by simp
    qed
  qed
qed

lemma lowercase_missing: "lowercase ''missing'' = ''missing''"
  by (simp add: lowercase_def to_lower_def)

lemma missing_matches:
  assumes "js_includes instruction ''missing''"
  shows "looksLikeMissingContent instruction"
proof -
  from assms obtain p q where "instruction = p @ ''missing'' @ q"
    by (auto simp: js_includes_iff)
  then have "lowercase instruction = lowercase p @ lowercase ''missing'' @ lowercase q"
    by (simp add: lowercase_def)
  then have "lowercase instruction = lowercase p @ ''miss'' @ (''ing'' @ lowercase q)"
    by (simp add: lowercase_missing)
  then have "js_includes (lowercase instruction) ''miss''"
    unfolding js_includes_iff by blast
  then show ?thesis by (simp add: looksLikeMissingContent_def)
qed

lemma map_by_index: "map (\<lambda>i. g (xs ! i)) [0..<length xs] = map g xs"
  by (rule nth_equalityI) simp_all

lemma discoveredAnalyses_length [simp]:
  "length (discoveredAnalyses base totalPages discovered) = length discovered"
  by (simp add: discoveredAnalyses_def)

lemma discoveredAnalyses_titles:
  "map title (discoveredAnalyses base totalPages discovered) = map dc_title discovered"
  using map_by_index [of dc_title discovered]
  by (simp add: discoveredAnalyses_def Let_def comp_def)

lemma discoveredAnalyses_pages:
  "map (\<lambda>a. (startPage a, endPage a)) (discoveredAnalyses base totalPages discovered)
     = map (\<lambda>ch. (dc_startPage ch, dc_endPage ch)) discovered"
  using map_by_index [of "\<lambda>ch. (dc_startPage ch, dc_endPage ch)" discovered]
  by (simp add: discoveredAnalyses_def Let_def comp_def)

lemma editCoursePlan_cases:
  assumes "hasApiKey env" "loadUserStateDocs env (userId opts) = Inr docs"
  shows "editCoursePlan env opts =
           (if discoveryEngaged opts
            then discoveryFlow env docs opts (the (extractedPages opts))
                   (lastDetectedPageOf (bookAnalysis opts)) (ba_totalPages (bookAnalysis opts))
            else standardEdit env docs opts)"
  using assms
  by (simp add: editCoursePlan_def discoveryEngaged_def Let_def split: option.splits)


lemma discoveryEngaged_gap:
  assumes "extractedPages opts = Some pages" "pages \<noteq> []"
    and "js_includes (userInstruction opts) ''missing''"
    and "ba_chapters (bookAnalysis opts) \<noteq> []"
    and "endPage (last (ba_chapters (bookAnalysis opts))) = 99"
    and "ba_totalPages (bookAnalysis opts) = 120"
  shows "discoveryEngaged opts" "lastDetectedPageOf (bookAnalysis opts) = 99"
  using assms missing_matches [of "userInstruction opts"]
  by (auto simp: discoveryEngaged_def lastDetectedPageOf_def split: list.splits)

subsection \<open>Gap reconciliation\<close>

text \<open>
  C5 (as amended). For an analysis whose last chapter ends at page 99 of 120 pages,
  an instruction that contains \<^verbatim>\<open>missing\<close>, raw pages at hand, a configured key and
  readable state documents, \<^verbatim>\<open>editCoursePlan\<close> runs the two-step discovery flow.
  When the discovery call and the merge call both succeed, the returned
  \<^verbatim>\<open>updatedBookAnalysis.chapters\<close> is the input list followed by one entry for each
  discovered chapter, in order and with its title: the input chapters are a prefix
  of it, its length is the input length plus the number of discovered chapters, and
  it is strictly longer than the input exactly when the discovery call returned at
  least one chapter.
\<close>

theorem gap_reconciliation_appends:
  assumes key: "hasApiKey env"
    and docs: "loadUserStateDocs env (userId opts) = Inr docs"
    and pages: "extractedPages opts = Some pages" "pages \<noteq> []"
    and instr: "js_includes (userInstruction opts) ''missing''"
    and known: "ba_chapters (bookAnalysis opts) \<noteq> []"
      "endPage (last (ba_chapters (bookAnalysis opts))) = 99"
    and total: "ba_totalPages (bookAnalysis opts) = 120"
    and found: "generateDiscovery env (discoverySystem 120 99)
                  (discoveryPrompt (uncoveredTextOf pages 99)) = Inr discovered"
    and merged: "generateMergedPlan env docs (userInstruction opts) (currentPlan opts) discovered
                   = Inr edited"
  shows "discoveryEngaged opts
         \<and> editCoursePlan env opts = discoveryFlow env docs opts pages 99 120
         \<and> (\<exists>r upd. editCoursePlan env opts = Inr r
               \<and> updatedBookAnalysis r = Some upd
               \<and> ba_chapters upd =
                   ba_chapters (bookAnalysis opts)
                     @ discoveredAnalyses (length (ba_chapters (bookAnalysis opts))) 120 discovered
               \<and> take (length (ba_chapters (bookAnalysis opts))) (ba_chapters upd)
                   = ba_chapters (bookAnalysis opts)
               \<and> map title (drop (length (ba_chapters (bookAnalysis opts))) (ba_chapters upd))
                   = map dc_title discovered
               \<and> length (ba_chapters upd)
                   = length (ba_chapters (bookAnalysis opts)) + length discovered
               \<and> (length (ba_chapters (bookAnalysis opts)) < length (ba_chapters upd))
                   = (discovered \<noteq> []))"
proof -
  note eng = discoveryEngaged_gap [OF pages instr known total]
  from editCoursePlan_cases [OF key docs] eng pages total
  have flow: "editCoursePlan env opts = discoveryFlow env docs opts pages 99 120" by simp
  let ?upd = "(bookAnalysis opts)
                 \<lparr>ba_chapters := ba_chapters (bookAnalysis opts)
                    @ discoveredAnalyses (length (ba_chapters (bookAnalysis opts))) 120 discovered\<rparr>"
  let ?r = "\<lparr>updatedPlan = planOf edited, updatedBookAnalysis = Some ?upd,
             explanation = plan_explanation edited\<rparr>"
  from found merged have "discoveryFlow env docs opts pages 99 120 = Inr ?r"
    by (simp add: discoveryFlow_def Let_def)
  with flow have r: "editCoursePlan env opts = Inr ?r" by simp
  have "updatedBookAnalysis ?r = Some ?upd
               \<and> ba_chapters ?upd =
                   ba_chapters (bookAnalysis opts)
                     @ discoveredAnalyses (length (ba_chapters (bookAnalysis opts))) 120 discovered
               \<and> take (length (ba_chapters (bookAnalysis opts))) (ba_chapters ?upd)
                   = ba_chapters (bookAnalysis opts)
               \<and> map title (drop (length (ba_chapters (bookAnalysis opts))) (ba_chapters ?upd))
                   = map dc_title discovered
               \<and> length (ba_chapters ?upd)
                   = length (ba_chapters (bookAnalysis opts)) + length discovered
               \<and> (length (ba_chapters (bookAnalysis opts)) < length (ba_chapters ?upd))
                   = (discovered \<noteq> [])"
    by (simp add: discoveredAnalyses_titles)
  note props = this
  have "\<exists>r upd. editCoursePlan env opts = Inr r
               \<and> updatedBookAnalysis r = Some upd
               \<and> ba_chapters upd =
                   ba_chapters (bookAnalysis opts)
                     @ discoveredAnalyses (length (ba_chapters (bookAnalysis opts))) 120 discovered
               \<and> take (length (ba_chapters (bookAnalysis opts))) (ba_chapters upd)
                   = ba_chapters (bookAnalysis opts)
               \<and> map title (drop (length (ba_chapters (bookAnalysis opts))) (ba_chapters upd))
                   = map dc_title discovered
               \<and> length (ba_chapters upd)
                   = length (ba_chapters (bookAnalysis opts)) + length discovered
               \<and> (length (ba_chapters (bookAnalysis opts)) < length (ba_chapters upd))
                   = (discovered \<noteq> [])"
    by (rule exI [of _ ?r], rule exI [of _ ?upd], rule conjI [OF r props])
  with eng(1) flow show ?thesis by simp
qed

text \<open>C5, instance: discovery finds the closing chapter of the 120-page book.\<close>

theorem gap_reconciliation_appends_witness:
  "hasApiKey closingEnv
   \<and> js_includes (userInstruction gapOpts) ''missing''
   \<and> endPage (last (ba_chapters (bookAnalysis gapOpts))) = 99
   \<and> ba_totalPages (bookAnalysis gapOpts) = 120
   \<and> discoveryEngaged gapOpts
   \<and> (\<exists>r upd. editCoursePlan closingEnv gapOpts = Inr r
          \<and> updatedBookAnalysis r = Some upd
          \<and> map title (ba_chapters upd) = [''Basics'', ''Conclusion'']
          \<and> length (ba_chapters (bookAnalysis gapOpts)) < length (ba_chapters upd))"
proof -
  have key: "hasApiKey closingEnv" by (simp add: closingEnv_def offlineEnv_def)
  have docs: "loadUserStateDocs closingEnv (userId gapOpts) = Inr emptyDocs"
    by (simp add: closingEnv_def offlineEnv_def)
  have pages: "extractedPages gapOpts = Some (replicate 120 ''page text'')"
    "replicate 120 ''page text'' \<noteq> []" by (simp_all add: gapOpts_def)
  have instr: "js_includes (userInstruction gapOpts) ''missing''" by code_simp
  have known: "ba_chapters (bookAnalysis gapOpts) \<noteq> []"
    "endPage (last (ba_chapters (bookAnalysis gapOpts))) = 99"
    by (simp_all add: gapOpts_def gapAnalysis_def firstChapter_def)
  have total: "ba_totalPages (bookAnalysis gapOpts) = 120"
    by (simp add: gapOpts_def gapAnalysis_def)
  have found: "generateDiscovery closingEnv (discoverySystem 120 99)
                  (discoveryPrompt (uncoveredTextOf (replicate 120 ''page text'') 99))
                = Inr [closingChapter]"
    by (simp add: closingEnv_def offlineEnv_def)
  have merged: "generateMergedPlan closingEnv emptyDocs (userInstruction gapOpts)
                  (currentPlan gapOpts) [closingChapter] = Inr mergedReply"
    by (simp add: closingEnv_def offlineEnv_def)
  have titles: "map title (ba_chapters (bookAnalysis gapOpts)) = [''Basics'']"
    by (simp add: gapOpts_def gapAnalysis_def firstChapter_def)
  note inst = gap_reconciliation_appends [OF key docs pages instr known total found merged]
  have eng: "discoveryEngaged gapOpts" by (rule inst [THEN conjunct1])
  note ex = inst [THEN conjunct2, THEN conjunct2]
  from ex obtain r upd where r: "editCoursePlan closingEnv gapOpts = Inr r"
    "updatedBookAnalysis r = Some upd"
    "take (length (ba_chapters (bookAnalysis gapOpts))) (ba_chapters upd)
       = ba_chapters (bookAnalysis gapOpts)"
    "map title (drop (length (ba_chapters (bookAnalysis gapOpts))) (ba_chapters upd))
       = map dc_title [closingChapter]"
    "length (ba_chapters (bookAnalysis gapOpts)) < length (ba_chapters upd)"
    by (elim exE conjE) simp
  have "map title (ba_chapters upd)
          = map title (take (length (ba_chapters (bookAnalysis gapOpts))) (ba_chapters upd))
            @ map title (drop (length (ba_chapters (bookAnalysis gapOpts))) (ba_chapters upd))"
    by (simp only: map_append [symmetric] append_take_drop_id)
  with r(3) r(4) titles have t: "map title (ba_chapters upd) = [''Basics'', ''Conclusion'']"
    by (simp add: closingChapter_def)
  have "\<exists>r upd. editCoursePlan closingEnv gapOpts = Inr r
          \<and> updatedBookAnalysis r = Some upd
          \<and> map title (ba_chapters upd) = [''Basics'', ''Conclusion'']
          \<and> length (ba_chapters (bookAnalysis gapOpts)) < length (ba_chapters upd)"
    by (rule exI [of _ r], rule exI [of _ upd]) (intro conjI r(1) r(2) t r(5))
  with key instr known(2) total eng show ?thesis by (simp only: simp_thms)
qed

text \<open>
  C5 as stated promises a strictly longer chapter list. When the discovery call
  returns no chapter, the flow still runs and the returned analysis has the chapters
  of the input, no more.
\<close>

theorem gap_reconciliation_empty_discovery:
  "editCoursePlan emptyDiscoveryEnv gapOpts =
     Inr \<lparr>updatedPlan = \<lparr>plan_title = ''Logic'', plan_description = ''A course'',
                          estimatedHours = 10, units = []\<rparr>,
          updatedBookAnalysis = Some gapAnalysis,
          explanation = ''Merged.''\<rparr>
   \<and> bookAnalysis gapOpts = gapAnalysis
   \<and> endPage (last (ba_chapters gapAnalysis)) = 99
   \<and> ba_totalPages gapAnalysis = 120
   \<and> js_includes (userInstruction gapOpts) ''missing''"
  by code_simp


subsection \<open>Failures of plan editing\<close>

text \<open>
  C2 (as amended). Without an API key \<^verbatim>\<open>editCoursePlan\<close> returns the input plan
  unchanged, no updated analysis, and the explanation that no key is configured; it
  raises nothing. With a key it handles no error: a failure of the reading of the
  state documents, of the discovery call, of the merge call, or of the standard edit
  call is raised to the caller as it is.
\<close>

theorem editCoursePlan_failure_semantics:
  "(\<not> hasApiKey env \<longrightarrow>
      editCoursePlan env opts =
        Inr \<lparr>updatedPlan = currentPlan opts, updatedBookAnalysis = None,
             explanation = noApiKeyExplanation\<rparr>)
   \<and> (hasApiKey env \<and> loadUserStateDocs env (userId opts) = Inl e
        \<longrightarrow> editCoursePlan env opts = Inl e)
   \<and> (hasApiKey env \<and> loadUserStateDocs env (userId opts) = Inr docs
        \<and> discoveryEngaged opts \<and> extractedPages opts = Some pages
        \<and> generateDiscovery env
             (discoverySystem (ba_totalPages (bookAnalysis opts)) (lastDetectedPageOf (bookAnalysis opts)))
             (discoveryPrompt (uncoveredTextOf pages (lastDetectedPageOf (bookAnalysis opts)))) = Inl e
        \<longrightarrow> editCoursePlan env opts = Inl e)
   \<and> (hasApiKey env \<and> loadUserStateDocs env (userId opts) = Inr docs
        \<and> discoveryEngaged opts \<and> extractedPages opts = Some pages
        \<and> generateDiscovery env
             (discoverySystem (ba_totalPages (bookAnalysis opts)) (lastDetectedPageOf (bookAnalysis opts)))
             (discoveryPrompt (uncoveredTextOf pages (lastDetectedPageOf (bookAnalysis opts))))
             = Inr discovered
        \<and> generateMergedPlan env docs (userInstruction opts) (currentPlan opts) discovered = Inl e
        \<longrightarrow> editCoursePlan env opts = Inl e)
   \<and> (hasApiKey env \<and> loadUserStateDocs env (userId opts) = Inr docs
        \<and> \<not> discoveryEngaged opts
        \<and> generateEditedPlan env docs (userInstruction opts) (currentPlan opts) (bookAnalysis opts)
             = Inl e
        \<longrightarrow> editCoursePlan env opts = Inl e)"
proof (intro conjI impI)
  assume "\<not> hasApiKey env"
  then show "editCoursePlan env opts =
        Inr \<lparr>updatedPlan = currentPlan opts, updatedBookAnalysis = None,
             explanation = noApiKeyExplanation\<rparr>"
    by (simp add: editCoursePlan_def)
next
  assume "hasApiKey env \<and> loadUserStateDocs env (userId opts) = Inl e"
  then show "editCoursePlan env opts = Inl e" by (simp add: editCoursePlan_def)
next
  assume a: "hasApiKey env \<and> loadUserStateDocs env (userId opts) = Inr docs
        \<and> discoveryEngaged opts \<and> extractedPages opts = Some pages
        \<and> generateDiscovery env
             (discoverySystem (ba_totalPages (bookAnalysis opts)) (lastDetectedPageOf (bookAnalysis opts)))
             (discoveryPrompt (uncoveredTextOf pages (lastDetectedPageOf (bookAnalysis opts)))) = Inl e"
  then have "editCoursePlan env opts = discoveryFlow env docs opts pages
                   (lastDetectedPageOf (bookAnalysis opts)) (ba_totalPages (bookAnalysis opts))"
    by (simp add: editCoursePlan_cases)
  with a show "editCoursePlan env opts = Inl e" by (simp add: discoveryFlow_def)
next
  assume a: "hasApiKey env \<and> loadUserStateDocs env (userId opts) = Inr docs
        \<and> discoveryEngaged opts \<and> extractedPages opts = Some pages
        \<and> generateDiscovery env
             (discoverySystem (ba_totalPages (bookAnalysis opts)) (lastDetectedPageOf (bookAnalysis opts)))
             (discoveryPrompt (uncoveredTextOf pages (lastDetectedPageOf (bookAnalysis opts))))
             = Inr discovered
        \<and> generateMergedPlan env docs (userInstruction opts) (currentPlan opts) discovered = Inl e"
  then have "editCoursePlan env opts = discoveryFlow env docs opts pages
                   (lastDetectedPageOf (bookAnalysis opts)) (ba_totalPages (bookAnalysis opts))"
    by (simp add: editCoursePlan_cases)
  with a show "editCoursePlan env opts = Inl e" by (simp add: discoveryFlow_def Let_def)
next
  assume a: "hasApiKey env \<and> loadUserStateDocs env (userId opts) = Inr docs
        \<and> \<not> discoveryEngaged opts
        \<and> generateEditedPlan env docs (userInstruction opts) (currentPlan opts) (bookAnalysis opts)
             = Inl e"
  then have "editCoursePlan env opts = standardEdit env docs opts"
    by (simp add: editCoursePlan_cases)
  with a show "editCoursePlan env opts = Inl e" by (simp add: standardEdit_def)
qed

text \<open>C2, instances: the request without a key, and with a key and a failing discovery call.\<close>

theorem editCoursePlan_failure_semantics_witness:
  "\<not> hasApiKey offlineEnv
   \<and> editCoursePlan offlineEnv gapOpts =
       Inr \<lparr>updatedPlan = samplePlan, updatedBookAnalysis = None,
            explanation = noApiKeyExplanation\<rparr>
   \<and> hasApiKey failingEnv
   \<and> discoveryEngaged gapOpts
   \<and> editCoursePlan failingEnv gapOpts = Inl (Thrown ''generation failed'')"
proof -
  have k0: "\<not> hasApiKey offlineEnv" by (simp add: offlineEnv_def)
  have p: "currentPlan gapOpts = samplePlan" by (simp add: gapOpts_def)
  from editCoursePlan_failure_semantics [of offlineEnv gapOpts] k0 p
  have one: "editCoursePlan offlineEnv gapOpts =
       Inr \<lparr>updatedPlan = samplePlan, updatedBookAnalysis = None,
            explanation = noApiKeyExplanation\<rparr>" by simp
  have k1: "hasApiKey failingEnv" by (simp add: failingEnv_def offlineEnv_def)
  have d: "loadUserStateDocs failingEnv (userId gapOpts) = Inr emptyDocs"
    by (simp add: failingEnv_def offlineEnv_def)
  have eng: "discoveryEngaged gapOpts" by code_simp
  have pg: "extractedPages gapOpts = Some (replicate 120 ''page text'')"
    by (simp add: gapOpts_def)
  have f: "generateDiscovery failingEnv
             (discoverySystem (ba_totalPages (bookAnalysis gapOpts)) (lastDetectedPageOf (bookAnalysis gapOpts)))
             (discoveryPrompt (uncoveredTextOf (replicate 120 ''page text'')
                (lastDetectedPageOf (bookAnalysis gapOpts)))) = Inl (Thrown ''generation failed'')"
    by (simp add: failingEnv_def offlineEnv_def)
  from editCoursePlan_failure_semantics
         [of failingEnv gapOpts "Thrown ''generation failed''" emptyDocs "replicate 120 ''page text''"]
       k1 d eng pg f
  have two: "editCoursePlan failingEnv gapOpts = Inl (Thrown ''generation failed'')" by simp
  from k0 one k1 eng two show ?thesis by (simp only: simp_thms)
qed

text \<open>
  C2 as stated has a failed discovery call answered with the original plan. With a
  key configured and a discovery call that throws, \<^verbatim>\<open>editCoursePlan\<close> ends with that
  error.
\<close>

theorem editCoursePlan_raises_counterexample:
  "hasApiKey failingEnv
   \<and> editCoursePlan failingEnv gapOpts = Inl (Thrown ''generation failed'')"
  by code_simp


section \<open>Reading minutes\<close>

text \<open>Evaluation of a rounding to binary64 from its exponent and its significand.\<close>

lemma nearest_double_eval:
  assumes "0 < x" "floor_log2 x = e" "- 1022 \<le> e" "pow2 (e - 52) = u"
    and "round_half_even (x / u) = m" "of_int m * u < pow2 1024"
  shows "nearest_double x = Finite (of_int m * u)"
  using assms by (auto simp: nearest_double_def Let_def)

lemma round_half_even_eval:
  assumes "of_int m - 1 / 2 < x" "x < of_int m + 1 / 2"
  shows "round_half_even x = m"
proof (cases "of_int m \<le> x")
  case True
  with assms have f: "\<lfloor>x\<rfloor> = m" by (simp add: floor_eq_iff)
  with assms show ?thesis by (simp add: round_half_even_def Let_def)
next
  case False
  with assms have f: "\<lfloor>x\<rfloor> = m - 1" by (simp add: floor_eq_iff)
  with assms False show ?thesis by (simp add: round_half_even_def Let_def)
qed

text \<open>
  Three values of the proportional estimate. One page of 300 gives
  \<open>1 / 300 * 120 = 0.4\<close>, rounded to 0. For 41 pages of 80 the quotient \<open>0.5125\<close> is
  not a double; the nearest one is below it, the product is \<open>61.49999999999999\<close>
  and the estimate is 61, where the exact fraction \<open>61.5\<close> would round to 62.
\<close>

lemma one_page_of_300: "proportionalMinutes 299 299 300 = Finite 0"
proof -
  have z: "nearest_double 0 = Finite 0" by (simp add: nearest_double_def)
  have "js_sub (Finite (of_int 299)) (Finite (of_int 299)) = Finite 0"
    by (simp add: js_sub_def z)
  note a = this
  have "nearest_double (1) = Finite (of_int 4503599627370496 * (1 / 4503599627370496))"
  proof (rule nearest_double_eval)
    have "\<lfloor>1 :: rat\<rfloor> = 1" by (simp add: floor_eq_iff)
    then show "floor_log2 (1) = 0" by (simp add: floor_log2_def ilog2.simps)
    show "pow2 (0 - 52) = 1 / 4503599627370496" by (simp add: pow2_def)
    show "round_half_even (1 / (1 / 4503599627370496)) = 4503599627370496"
      by (rule round_half_even_eval) simp_all
    show "of_int 4503599627370496 * (1 / 4503599627370496) < pow2 1024" by (simp add: pow2_def)
  qed simp_all
  with a have "js_add (js_sub (Finite (of_int 299)) (Finite (of_int 299))) (Finite 1) = Finite 1"
    by simp
  note b = this
  have "nearest_double (1 / 300) = Finite (of_int 7686143364045647 * (1 / 2305843009213693952))"
  proof (rule nearest_double_eval)
    have "\<lceil>1 / (1 / 300) :: rat\<rceil> = 300" by (simp add: ceiling_eq_iff)
    then show "floor_log2 (1 / 300) = - 9" by (simp add: floor_log2_def ilog2.simps)
    show "pow2 (- 9 - 52) = 1 / 2305843009213693952" by (simp add: pow2_def)
    show "round_half_even (1 / 300 / (1 / 2305843009213693952)) = 7686143364045647"
      by (rule round_half_even_eval) simp_all
    show "of_int 7686143364045647 * (1 / 2305843009213693952) < pow2 1024" by (simp add: pow2_def)
  qed simp_all
  with b have "js_div (js_add (js_sub (Finite (of_int 299)) (Finite (of_int 299))) (Finite 1))
             (Finite (of_int 300)) = Finite (7686143364045647 / 2305843009213693952)"
    by simp
  note c = this
  have "nearest_double (7686143364045647 / 2305843009213693952 * 120) = Finite (of_int 7205759403792794 * (1 / 18014398509481984))"
  proof (rule nearest_double_eval)
    have "\<lceil>1 / (7686143364045647 / 2305843009213693952 * 120) :: rat\<rceil> = 3" by (simp add: ceiling_eq_iff)
    then show "floor_log2 (7686143364045647 / 2305843009213693952 * 120) = - 2" by (simp add: floor_log2_def ilog2.simps)
    show "pow2 (- 2 - 52) = 1 / 18014398509481984" by (simp add: pow2_def)
    show "round_half_even (7686143364045647 / 2305843009213693952 * 120 / (1 / 18014398509481984)) = 7205759403792794"
      by (rule round_half_even_eval) simp_all
    show "of_int 7205759403792794 * (1 / 18014398509481984) < pow2 1024" by (simp add: pow2_def)
  qed simp_all
  then have m: "nearest_double (7686143364045647 / 2305843009213693952 * 120) = Finite (3602879701896397 / 9007199254740992)" by simp
  from c have "js_mul (js_div (js_add (js_sub (Finite (of_int 299)) (Finite (of_int 299))) (Finite 1))
             (Finite (of_int 300))) (Finite 120) = Finite (3602879701896397 / 9007199254740992)"
    by (simp only: js_mul.simps m)
  note d = this
  have r: "js_round (3602879701896397 / 9007199254740992) = 0"
    by (simp add: js_round_def floor_eq_iff)
  from d show ?thesis
    by (simp only: proportionalMinutes_def math_round.simps r) simp
qed

lemma forty_one_pages_of_80: "proportionalMinutes 39 79 80 = Finite 61"
proof -
  have "nearest_double (40) = Finite (of_int 5629499534213120 * (1 / 140737488355328))"
  proof (rule nearest_double_eval)
    have "\<lfloor>40 :: rat\<rfloor> = 40" by (simp add: floor_eq_iff)
    then show "floor_log2 (40) = 5" by (simp add: floor_log2_def ilog2.simps)
    show "pow2 (5 - 52) = 1 / 140737488355328" by (simp add: pow2_def)
    show "round_half_even (40 / (1 / 140737488355328)) = 5629499534213120"
      by (rule round_half_even_eval) simp_all
    show "of_int 5629499534213120 * (1 / 140737488355328) < pow2 1024" by (simp add: pow2_def)
  qed simp_all
  then have "js_sub (Finite (of_int 79)) (Finite (of_int 39)) = Finite 40"
    by (simp add: js_sub_def)
  note a = this
  have "nearest_double (41) = Finite (of_int 5770237022568448 * (1 / 140737488355328))"
  proof (rule nearest_double_eval)
    have "\<lfloor>41 :: rat\<rfloor> = 41" by (simp add: floor_eq_iff)
    then show "floor_log2 (41) = 5" by (simp add: floor_log2_def ilog2.simps)
    show "pow2 (5 - 52) = 1 / 140737488355328" by (simp add: pow2_def)
    show "round_half_even (41 / (1 / 140737488355328)) = 5770237022568448"
      by (rule round_half_even_eval) simp_all
    show "of_int 5770237022568448 * (1 / 140737488355328) < pow2 1024" by (simp add: pow2_def)
  qed simp_all
  with a have "js_add (js_sub (Finite (of_int 79)) (Finite (of_int 39))) (Finite 1) = Finite 41"
    by simp
  note b = this
  have "nearest_double (41 / 80) = Finite (of_int 4616189618054758 * (1 / 9007199254740992))"
  proof (rule nearest_double_eval)
    have "\<lceil>1 / (41 / 80) :: rat\<rceil> = 2" by (simp add: ceiling_eq_iff)
    then show "floor_log2 (41 / 80) = - 1" by (simp add: floor_log2_def ilog2.simps)
    show "pow2 (- 1 - 52) = 1 / 9007199254740992" by (simp add: pow2_def)
    show "round_half_even (41 / 80 / (1 / 9007199254740992)) = 4616189618054758"
      by (rule round_half_even_eval) simp_all
    show "of_int 4616189618054758 * (1 / 9007199254740992) < pow2 1024" by (simp add: pow2_def)
  qed simp_all
  with b have "js_div (js_add (js_sub (Finite (of_int 79)) (Finite (of_int 39))) (Finite 1))
             (Finite (of_int 80)) = Finite (2308094809027379 / 4503599627370496)"
    by simp
  note c = this
  have "nearest_double (2308094809027379 / 4503599627370496 * 120) = Finite (of_int 8655355533852671 * (1 / 140737488355328))"
  proof (rule nearest_double_eval)
    have "\<lfloor>2308094809027379 / 4503599627370496 * 120 :: rat\<rfloor> = 61" by (simp add: floor_eq_iff)
    then show "floor_log2 (2308094809027379 / 4503599627370496 * 120) = 5" by (simp add: floor_log2_def ilog2.simps)
    show "pow2 (5 - 52) = 1 / 140737488355328" by (simp add: pow2_def)
    show "round_half_even (2308094809027379 / 4503599627370496 * 120 / (1 / 140737488355328)) = 8655355533852671"
      by (rule round_half_even_eval) simp_all
    show "of_int 8655355533852671 * (1 / 140737488355328) < pow2 1024" by (simp add: pow2_def)
  qed simp_all
  then have m: "nearest_double (2308094809027379 / 4503599627370496 * 120) = Finite (8655355533852671 / 140737488355328)" by simp
  from c have "js_mul (js_div (js_add (js_sub (Finite (of_int 79)) (Finite (of_int 39))) (Finite 1))
             (Finite (of_int 80))) (Finite 120) = Finite (8655355533852671 / 140737488355328)"
    by (simp only: js_mul.simps m)
  note d = this
  have r: "js_round (8655355533852671 / 140737488355328) = 61"
    by (simp add: js_round_def floor_eq_iff)
  from d show ?thesis
    by (simp only: proportionalMinutes_def math_round.simps r) simp
qed

lemma twenty_pages_of_120: "proportionalMinutes 100 119 120 = Finite 20"
proof -
  have "nearest_double (19) = Finite (of_int 5348024557502464 * (1 / 281474976710656))"
  proof (rule nearest_double_eval)
    have "\<lfloor>19 :: rat\<rfloor> = 19" by (simp add: floor_eq_iff)
    then show "floor_log2 (19) = 4" by (simp add: floor_log2_def ilog2.simps)
    show "pow2 (4 - 52) = 1 / 281474976710656" by (simp add: pow2_def)
    show "round_half_even (19 / (1 / 281474976710656)) = 5348024557502464"
      by (rule round_half_even_eval) simp_all
    show "of_int 5348024557502464 * (1 / 281474976710656) < pow2 1024" by (simp add: pow2_def)
  qed simp_all
  then have "js_sub (Finite (of_int 119)) (Finite (of_int 100)) = Finite 19"
    by (simp add: js_sub_def)
  note a = this
  have "nearest_double (20) = Finite (of_int 5629499534213120 * (1 / 281474976710656))"
  proof (rule nearest_double_eval)
    have "\<lfloor>20 :: rat\<rfloor> = 20" by (simp add: floor_eq_iff)
    then show "floor_log2 (20) = 4" by (simp add: floor_log2_def ilog2.simps)
    show "pow2 (4 - 52) = 1 / 281474976710656" by (simp add: pow2_def)
    show "round_half_even (20 / (1 / 281474976710656)) = 5629499534213120"
      by (rule round_half_even_eval) simp_all
    show "of_int 5629499534213120 * (1 / 281474976710656) < pow2 1024" by (simp add: pow2_def)
  qed simp_all
  with a have "js_add (js_sub (Finite (of_int 119)) (Finite (of_int 100))) (Finite 1) = Finite 20"
    by simp
  note b = this
  have "nearest_double (1 / 6) = Finite (of_int 6004799503160661 * (1 / 36028797018963968))"
  proof (rule nearest_double_eval)
    have "\<lceil>1 / (1 / 6) :: rat\<rceil> = 6" by (simp add: ceiling_eq_iff)
    then show "floor_log2 (1 / 6) = - 3" by (simp add: floor_log2_def ilog2.simps)
    show "pow2 (- 3 - 52) = 1 / 36028797018963968" by (simp add: pow2_def)
    show "round_half_even (1 / 6 / (1 / 36028797018963968)) = 6004799503160661"
      by (rule round_half_even_eval) simp_all
    show "of_int 6004799503160661 * (1 / 36028797018963968) < pow2 1024" by (simp add: pow2_def)
  qed simp_all
  with b have "js_div (js_add (js_sub (Finite (of_int 119)) (Finite (of_int 100))) (Finite 1))
             (Finite (of_int 120)) = Finite (6004799503160661 / 36028797018963968)"
    by simp
  note c = this
  have "nearest_double (6004799503160661 / 36028797018963968 * 120) = Finite (of_int 5629499534213120 * (1 / 281474976710656))"
  proof (rule nearest_double_eval)
    have "\<lfloor>6004799503160661 / 36028797018963968 * 120 :: rat\<rfloor> = 19" by (simp add: floor_eq_iff)
    then show "floor_log2 (6004799503160661 / 36028797018963968 * 120) = 4" by (simp add: floor_log2_def ilog2.simps)
    show "pow2 (4 - 52) = 1 / 281474976710656" by (simp add: pow2_def)
    show "round_half_even (6004799503160661 / 36028797018963968 * 120 / (1 / 281474976710656)) = 5629499534213120"
      by (rule round_half_even_eval) simp_all
    show "of_int 5629499534213120 * (1 / 281474976710656) < pow2 1024" by (simp add: pow2_def)
  qed simp_all
  then have m: "nearest_double (6004799503160661 / 36028797018963968 * 120) = Finite (20)" by simp
  from c have "js_mul (js_div (js_add (js_sub (Finite (of_int 119)) (Finite (of_int 100))) (Finite 1))
             (Finite (of_int 120))) (Finite 120) = Finite (20)"
    by (simp only: js_mul.simps m)
  note d = this
  have r: "js_round (20) = 20"
    by (simp add: js_round_def floor_eq_iff)
  from d show ?thesis
    by (simp only: proportionalMinutes_def math_round.simps r) simp
qed


lemma math_round_integer: "math_round v = Finite x \<Longrightarrow> is_integer x"
  by (cases v) (auto simp: is_integer_def)

lemma proportionalMinutes_integer: "proportionalMinutes s e n = Finite x \<Longrightarrow> is_integer x"
  unfolding proportionalMinutes_def by (rule math_round_integer)

text \<open>For a book of no pages the estimate is an infinity or \<^verbatim>\<open>NaN\<close>.\<close>

lemma proportionalMinutes_zero_total: "proportionalMinutes s e 0 \<noteq> Finite x"
  unfolding proportionalMinutes_def
  by (cases "js_add (js_sub (Finite (of_int e)) (Finite (of_int s))) (Finite 1)") auto

lemma discoveredAnalyses_nth:
  "j < length discovered \<Longrightarrow>
     discoveredAnalyses base totalPages discovered ! j =
       \<lparr>title = dc_title (discovered ! j),
        startPage = dc_startPage (discovered ! j),
        endPage = dc_endPage (discovered ! j),
        chapterNumber = int base + int j + 1,
        summary = dc_summary (discovered ! j),
        keyConcepts = dc_keyConcepts (discovered ! j),
        learningObjectives = dc_learningObjectives (discovered ! j),
        prerequisites = [],
        estimatedReadingMinutes =
          proportionalMinutes (dc_startPage (discovered ! j)) (dc_endPage (discovered ! j))
            totalPages\<rparr>"
  by (simp add: discoveredAnalyses_def Let_def)

lemma editCoursePlan_appended:
  assumes "editCoursePlan env opts = Inr res" "updatedBookAnalysis res = Some upd"
  shows "\<exists>discovered. ba_chapters upd =
           ba_chapters (bookAnalysis opts)
             @ discoveredAnalyses (length (ba_chapters (bookAnalysis opts)))
                 (ba_totalPages (bookAnalysis opts)) discovered"
proof (cases "hasApiKey env")
  case False
  with assms show ?thesis by (auto simp: editCoursePlan_def)
next
  case True
  show ?thesis
  proof (cases "loadUserStateDocs env (userId opts)")
    case (Inl e)
    with True assms show ?thesis by (simp add: editCoursePlan_def)
  next
    case (Inr docs)
    show ?thesis
    proof (cases "discoveryEngaged opts")
      case False
      with editCoursePlan_cases [OF True Inr] assms show ?thesis
        by (auto simp: standardEdit_def split: sum.splits)
    next
      case engaged: True
      with editCoursePlan_cases [OF True Inr] assms(1)
      have "discoveryFlow env docs opts (the (extractedPages opts))
                   (lastDetectedPageOf (bookAnalysis opts)) (ba_totalPages (bookAnalysis opts)) = Inr res"
        by simp
      then obtain discovered where "updatedBookAnalysis res =
          Some ((bookAnalysis opts)
                 \<lparr>ba_chapters := ba_chapters (bookAnalysis opts)
                    @ discoveredAnalyses (length (ba_chapters (bookAnalysis opts)))
                        (ba_totalPages (bookAnalysis opts)) discovered\<rparr>)"
        by (auto simp: discoveryFlow_def Let_def split: sum.splits)
      with assms(2) have "ba_chapters upd = ba_chapters (bookAnalysis opts)
                    @ discoveredAnalyses (length (ba_chapters (bookAnalysis opts)))
                        (ba_totalPages (bookAnalysis opts)) discovered" by auto
      then show ?thesis by (rule exI)
    qed
  qed
qed


text \<open>
  C6 (as amended). Every result of \<^verbatim>\<open>analyzeChapter\<close> has
  \<open>estimatedReadingMinutes > 0\<close>. On the fallback path (no API key, or the generation
  call throws) the value is \<open>max(5, round(wordCount / 250))\<close>, an integer, at least 5.
  On the generation path it is the returned number when that is positive, whether
  an integer or not, and the fallback value otherwise. Every chapter of the
  orchestrator's output carries the value that \<^verbatim>\<open>analyzeChapter\<close> returned for that
  chapter. A chapter appended by the discovery flow carries
  \<^verbatim>\<open>Math.round(((endPage - startPage + 1) / totalPages) * 120)\<close>, computed in double
  arithmetic on its own page range and the book's page count: an integer whenever
  it is finite, with no lower bound.
\<close>

theorem reading_minutes_bounds:
  "(analyzeChapter env n t body ctx = Inr r \<longrightarrow> 0 < ins_estimatedReadingMinutes r)
   \<and> (analyzeChapter env n t body ctx = Inr r
        \<and> (\<not> hasApiKey env
            \<or> (\<exists>e. generateChapterAnalysis env (chapterPrompt n t body ctx) = Inl e))
        \<longrightarrow> ins_estimatedReadingMinutes r = of_int (max 5 (js_round (of_nat (wordCount body) / 250)))
          \<and> is_integer (ins_estimatedReadingMinutes r) \<and> 5 \<le> ins_estimatedReadingMinutes r)
   \<and> (analyzeChapter env n t body ctx = Inr r \<and> hasApiKey env
        \<and> generateChapterAnalysis env (chapterPrompt n t body ctx) = Inr reply
        \<longrightarrow> ins_estimatedReadingMinutes r =
              (if 0 < ins_estimatedReadingMinutes reply then ins_estimatedReadingMinutes reply
               else of_int (max 5 (js_round (of_nat (wordCount body) / 250)))))
   \<and> (analyzeChaptersWithContext env structure pages = Inr rs \<and> i < length rs \<and> rs ! i = Some a
        \<longrightarrow> (\<exists>ins c. analyzeChapter env (int i + 1) (title (bs_chapters structure ! i))
                        (chapterTextOf pages (bs_chapters structure ! i)) c = Inr ins
                    \<and> estimatedReadingMinutes a = Finite (ins_estimatedReadingMinutes ins)
                    \<and> 0 < ins_estimatedReadingMinutes ins))
   \<and> (editCoursePlan env opts = Inr res \<and> updatedBookAnalysis res = Some upd
        \<and> length (ba_chapters (bookAnalysis opts)) \<le> k \<and> k < length (ba_chapters upd)
        \<longrightarrow> estimatedReadingMinutes (ba_chapters upd ! k) =
              math_round
                (js_mul
                   (js_div
                      (js_add
                         (js_sub (Finite (of_int (endPage (ba_chapters upd ! k))))
                            (Finite (of_int (startPage (ba_chapters upd ! k)))))
                         (Finite 1))
                      (Finite (of_int (ba_totalPages (bookAnalysis opts)))))
                   (Finite 120))
          \<and> (\<forall>x. estimatedReadingMinutes (ba_chapters upd ! k) = Finite x \<longrightarrow> is_integer x))"
proof (intro conjI impI)
  assume "analyzeChapter env n t body ctx = Inr r"
  then show "0 < ins_estimatedReadingMinutes r" by (rule analyzeChapter_positive)
next
  assume a: "analyzeChapter env n t body ctx = Inr r
        \<and> (\<not> hasApiKey env
            \<or> (\<exists>e. generateChapterAnalysis env (chapterPrompt n t body ctx) = Inl e))"
  have "r = fallbackInsights t body"
  proof (cases "hasApiKey env")
    case False
    with a show ?thesis by (simp add: analyzeChapter_def)
  next
    case True
    with a obtain e where "generateChapterAnalysis env (chapterPrompt n t body ctx) = Inl e"
      by blast
    with True a show ?thesis by (simp add: analyzeChapter_def try_catch_def)
  qed
  then have m: "ins_estimatedReadingMinutes r = fallbackMinutes body"
    by (simp add: fallbackInsights_def)
  then show "ins_estimatedReadingMinutes r = of_int (max 5 (js_round (of_nat (wordCount body) / 250)))"
    by (simp add: fallbackMinutes_def)
  from m show "is_integer (ins_estimatedReadingMinutes r)"
    by (simp add: fallbackMinutes_def is_integer_def)
  from m fallbackMinutes_ge5 [of body] show "5 \<le> ins_estimatedReadingMinutes r" by simp
next
  assume a: "analyzeChapter env n t body ctx = Inr r \<and> hasApiKey env
        \<and> generateChapterAnalysis env (chapterPrompt n t body ctx) = Inr reply"
  then show "ins_estimatedReadingMinutes r =
              (if 0 < ins_estimatedReadingMinutes reply then ins_estimatedReadingMinutes reply
               else of_int (max 5 (js_round (of_nat (wordCount body) / 250))))"
    by (auto simp: analyzeChapter_def try_catch_def fallbackMinutes_def)
next
  assume a: "analyzeChaptersWithContext env structure pages = Inr rs \<and> i < length rs \<and> rs ! i = Some a"
  from runAnalysis_invariants [of env "structure" pages]
  obtain st where run: "runAnalysis env structure pages = Inr st"
    and ok: "slots_ok (bs_chapters structure) st (length (bs_chapters structure))"
    and fc: "slots_from_calls env pages (bs_chapters structure) st (length (bs_chapters structure))"
    by (elim exE conjE)
  from run a have rs: "rs = results st" by (simp add: analyzeChaptersWithContext_def)
  with a ok have i: "i < length (bs_chapters structure)" by (simp add: slots_ok_def)
  from slots_from_calls_at [OF fc i i]
  obtain ins b where ins: "analyzeChapter env (int i + 1) (title (bs_chapters structure ! i))
                 (chapterTextOf pages (bs_chapters structure ! i))
                 (call_previousContext (calls st ! i)) = Inr ins"
    and b: "results st ! i = Some b"
    and m: "estimatedReadingMinutes b = Finite (ins_estimatedReadingMinutes ins)"
    by (elim exE conjE)
  from a rs b have "a = b" by simp
  with m have m': "estimatedReadingMinutes a = Finite (ins_estimatedReadingMinutes ins)" by simp
  from ins have "0 < ins_estimatedReadingMinutes ins" by (rule analyzeChapter_positive)
  with ins m' show "\<exists>ins c. analyzeChapter env (int i + 1) (title (bs_chapters structure ! i))
                        (chapterTextOf pages (bs_chapters structure ! i)) c = Inr ins
                    \<and> estimatedReadingMinutes a = Finite (ins_estimatedReadingMinutes ins)
                    \<and> 0 < ins_estimatedReadingMinutes ins"
    by (intro exI conjI)
next
  assume a: "editCoursePlan env opts = Inr res \<and> updatedBookAnalysis res = Some upd
        \<and> length (ba_chapters (bookAnalysis opts)) \<le> k \<and> k < length (ba_chapters upd)"
  let ?orig = "ba_chapters (bookAnalysis opts)"
  from a editCoursePlan_appended [of env opts res upd]
  obtain discovered where d: "ba_chapters upd =
       ?orig @ discoveredAnalyses (length ?orig) (ba_totalPages (bookAnalysis opts)) discovered"
    by blast
  let ?new = "discoveredAnalyses (length ?orig) (ba_totalPages (bookAnalysis opts)) discovered"
  let ?j = "k - length ?orig"
  from a have k: "length ?orig \<le> k" "k < length (ba_chapters upd)" by simp_all
  from k d have at: "ba_chapters upd ! k = ?new ! ?j" by (simp add: nth_append)
  from k d have j: "?j < length discovered" by simp
  note c = discoveredAnalyses_nth [OF j, of "length ?orig" "ba_totalPages (bookAnalysis opts)"]
  from at c have m: "estimatedReadingMinutes (ba_chapters upd ! k) =
      proportionalMinutes (startPage (ba_chapters upd ! k)) (endPage (ba_chapters upd ! k))
        (ba_totalPages (bookAnalysis opts))"
    by simp
  then show "estimatedReadingMinutes (ba_chapters upd ! k) =
              math_round
                (js_mul
                   (js_div
                      (js_add
                         (js_sub (Finite (of_int (endPage (ba_chapters upd ! k))))
                            (Finite (of_int (startPage (ba_chapters upd ! k)))))
                         (Finite 1))
                      (Finite (of_int (ba_totalPages (bookAnalysis opts)))))
                   (Finite 120))"
    by (simp only: proportionalMinutes_def)
  from m show "\<forall>x. estimatedReadingMinutes (ba_chapters upd ! k) = Finite x \<longrightarrow> is_integer x"
    by (auto dest: proportionalMinutes_integer)
qed



text \<open>
  C6, instances: a generation call that returns 12.5 minutes; a generation call
  that throws, on a text of two words; the fourth of twelve chapters analysed with
  that generation; and the chapter on pages 100 to 119 appended to the 120-page
  book, with \<open>round(20 / 120 * 120) = 20\<close> minutes.
\<close>

theorem reading_minutes_bounds_witness:
  "(\<exists>r. analyzeChapter conceptEnv 1 ''Part'' ''some text'' None = Inr r
        \<and> generateChapterAnalysis conceptEnv (chapterPrompt 1 ''Part'' ''some text'' None)
            = Inr twoConcepts
        \<and> ins_estimatedReadingMinutes twoConcepts = 25 / 2
        \<and> ins_estimatedReadingMinutes r = 25 / 2 \<and> 0 < ins_estimatedReadingMinutes r)
   \<and> (\<exists>r. analyzeChapter failingEnv 1 ''Part'' ''some text'' None = Inr r
          \<and> ins_estimatedReadingMinutes r = 5
          \<and> is_integer (ins_estimatedReadingMinutes r) \<and> 5 \<le> ins_estimatedReadingMinutes r)
   \<and> (\<exists>rs a. analyzeChaptersWithContext conceptEnv twelveChapters twelvePages = Inr rs
          \<and> 3 < length rs \<and> rs ! 3 = Some a \<and> estimatedReadingMinutes a = Finite (25 / 2))
   \<and> (\<exists>res upd. editCoursePlan closingEnv gapOpts = Inr res
          \<and> updatedBookAnalysis res = Some upd
          \<and> length (ba_chapters (bookAnalysis gapOpts)) = 1
          \<and> length (ba_chapters upd) = 2
          \<and> startPage (ba_chapters upd ! 1) = 100 \<and> endPage (ba_chapters upd ! 1) = 119
          \<and> ba_totalPages (bookAnalysis gapOpts) = 120
          \<and> estimatedReadingMinutes (ba_chapters upd ! 1) = Finite 20
          \<and> is_integer 20)"
proof -
  from analyzeChapter_total [of conceptEnv 1 "''Part''" "''some text''" None]
  obtain r1 where r1: "analyzeChapter conceptEnv 1 ''Part'' ''some text'' None = Inr r1" by blast
  have key1: "hasApiKey conceptEnv" by (simp add: conceptEnv_def offlineEnv_def)
  have g1: "generateChapterAnalysis conceptEnv (chapterPrompt 1 ''Part'' ''some text'' None)
            = Inr twoConcepts"
    by (simp add: conceptEnv_def offlineEnv_def)
  have t: "ins_estimatedReadingMinutes twoConcepts = 25 / 2" by (simp add: twoConcepts_def)
  from reading_minutes_bounds [of conceptEnv 1 "''Part''" "''some text''" None r1 twoConcepts,
      THEN conjunct1] r1
  have p1: "0 < ins_estimatedReadingMinutes r1" by (rule mp)
  from reading_minutes_bounds [of conceptEnv 1 "''Part''" "''some text''" None r1 twoConcepts,
      THEN conjunct2, THEN conjunct2, THEN conjunct1] r1 key1 g1
  have "ins_estimatedReadingMinutes r1 =
          (if 0 < ins_estimatedReadingMinutes twoConcepts then ins_estimatedReadingMinutes twoConcepts
           else of_int (max 5 (js_round (of_nat (wordCount ''some text'') / 250))))"
    by blast
  with t have v1: "ins_estimatedReadingMinutes r1 = 25 / 2" by simp
  from r1 g1 t v1 p1
  have c1: "\<exists>r. analyzeChapter conceptEnv 1 ''Part'' ''some text'' None = Inr r
        \<and> generateChapterAnalysis conceptEnv (chapterPrompt 1 ''Part'' ''some text'' None)
            = Inr twoConcepts
        \<and> ins_estimatedReadingMinutes twoConcepts = 25 / 2
        \<and> ins_estimatedReadingMinutes r = 25 / 2 \<and> 0 < ins_estimatedReadingMinutes r"
    by (intro exI conjI)
  from analyzeChapter_total [of failingEnv 1 "''Part''" "''some text''" None]
  obtain r where r: "analyzeChapter failingEnv 1 ''Part'' ''some text'' None = Inr r" by blast
  have f: "\<not> hasApiKey failingEnv
            \<or> (\<exists>e. generateChapterAnalysis failingEnv (chapterPrompt 1 ''Part'' ''some text'' None) = Inl e)"
    by (simp add: failingEnv_def offlineEnv_def)
  have w: "wordCount ''some text'' = 2"
    by (simp add: wordCount_def split_ws_def is_space_def)
  from reading_minutes_bounds [of failingEnv 1 "''Part''" "''some text''" None r,
      THEN conjunct2, THEN conjunct1] r f
  have fb: "ins_estimatedReadingMinutes r = of_int (max 5 (js_round (of_nat (wordCount ''some text'') / 250)))
      \<and> is_integer (ins_estimatedReadingMinutes r) \<and> 5 \<le> ins_estimatedReadingMinutes r"
    by blast
  have "js_round (of_nat (wordCount ''some text'') / 250) = (int 2 + 125) div 250"
    by (simp only: js_round_div250 w)
  with fb have "ins_estimatedReadingMinutes r = 5" by simp
  with r fb have c2: "\<exists>r. analyzeChapter failingEnv 1 ''Part'' ''some text'' None = Inr r
          \<and> ins_estimatedReadingMinutes r = 5
          \<and> is_integer (ins_estimatedReadingMinutes r) \<and> 5 \<le> ins_estimatedReadingMinutes r"
    by blast
  from runAnalysis_invariants [of conceptEnv twelveChapters twelvePages]
  obtain st where run: "runAnalysis conceptEnv twelveChapters twelvePages = Inr st"
    and ok: "slots_ok (bs_chapters twelveChapters) st (length (bs_chapters twelveChapters))"
    and fc: "slots_from_calls conceptEnv twelvePages (bs_chapters twelveChapters) st
               (length (bs_chapters twelveChapters))"
    by (elim exE conjE)
  have l: "length (bs_chapters twelveChapters) = 12" by (simp add: twelveChapters_def)
  from run have rs: "analyzeChaptersWithContext conceptEnv twelveChapters twelvePages = Inr (results st)"
    by (simp add: analyzeChaptersWithContext_def)
  from ok l have len: "3 < length (results st)" by (simp add: slots_ok_def)
  from l have three: "3 < length (bs_chapters twelveChapters)" by simp
  from slots_from_calls_at [OF fc three three]
  obtain a where a: "results st ! 3 = Some a" by (elim exE conjE)
  from reading_minutes_bounds [of conceptEnv _ _ _ _ _ _ twelveChapters twelvePages "results st" 3 a,
      THEN conjunct2, THEN conjunct2, THEN conjunct2, THEN conjunct1] rs len a
  obtain ins c where
    ic: "analyzeChapter conceptEnv (int 3 + 1) (title (bs_chapters twelveChapters ! 3))
           (chapterTextOf twelvePages (bs_chapters twelveChapters ! 3)) c = Inr ins"
    and im: "estimatedReadingMinutes a = Finite (ins_estimatedReadingMinutes ins)"
    by blast
  from ic analyzeChapter_conceptEnv [of "int 3 + 1" "title (bs_chapters twelveChapters ! 3)"
      "chapterTextOf twelvePages (bs_chapters twelveChapters ! 3)" c]
  have "ins = twoConcepts" by simp
  with im t have "estimatedReadingMinutes a = Finite (25 / 2)" by simp
  with rs len a
  have c3: "\<exists>rs a. analyzeChaptersWithContext conceptEnv twelveChapters twelvePages = Inr rs
          \<and> 3 < length rs \<and> rs ! 3 = Some a \<and> estimatedReadingMinutes a = Finite (25 / 2)"
    by blast
  let ?upd = "gapAnalysis\<lparr>ba_chapters := ba_chapters gapAnalysis
                 @ discoveredAnalyses (length (ba_chapters gapAnalysis)) 120 [closingChapter]\<rparr>"
  let ?res = "\<lparr>updatedPlan = planOf mergedReply, updatedBookAnalysis = Some ?upd,
               explanation = plan_explanation mergedReply\<rparr>"
  have key: "hasApiKey closingEnv" by (simp add: closingEnv_def offlineEnv_def)
  have docs: "loadUserStateDocs closingEnv (userId gapOpts) = Inr emptyDocs"
    by (simp add: closingEnv_def offlineEnv_def)
  have eng: "discoveryEngaged gapOpts" by code_simp
  from editCoursePlan_cases [OF key docs] eng
  have "editCoursePlan closingEnv gapOpts =
            discoveryFlow closingEnv emptyDocs gapOpts (the (extractedPages gapOpts))
              (lastDetectedPageOf (bookAnalysis gapOpts))
              (ba_totalPages (bookAnalysis gapOpts))"
    by simp
  then have e: "editCoursePlan closingEnv gapOpts = Inr ?res"
    by (simp add: discoveryFlow_def closingEnv_def offlineEnv_def gapOpts_def gapAnalysis_def)
  have u: "updatedBookAnalysis ?res = Some ?upd" by simp
  have l1: "length (ba_chapters (bookAnalysis gapOpts)) = 1"
    by (simp add: gapOpts_def gapAnalysis_def)
  have l2: "length (ba_chapters ?upd) = 2" by (simp add: gapAnalysis_def)
  have tp: "ba_totalPages (bookAnalysis gapOpts) = 120" by (simp add: gapOpts_def gapAnalysis_def)
  have sp: "startPage (ba_chapters ?upd ! 1) = 100"
    by (simp add: gapAnalysis_def discoveredAnalyses_def closingChapter_def)
  have ep: "endPage (ba_chapters ?upd ! 1) = 119"
    by (simp add: gapAnalysis_def discoveredAnalyses_def closingChapter_def)
  from l1 l2 have k: "length (ba_chapters (bookAnalysis gapOpts)) \<le> 1" "1 < length (ba_chapters ?upd)"
    by simp_all
  from reading_minutes_bounds [of closingEnv _ _ _ _ _ _ _ _ _ _ _ gapOpts ?res ?upd 1,
      THEN conjunct2, THEN conjunct2, THEN conjunct2, THEN conjunct2] e u k
  have both: "estimatedReadingMinutes (ba_chapters ?upd ! 1) =
              math_round
                (js_mul
                   (js_div
                      (js_add
                         (js_sub (Finite (of_int (endPage (ba_chapters ?upd ! 1))))
                            (Finite (of_int (startPage (ba_chapters ?upd ! 1)))))
                         (Finite 1))
                      (Finite (of_int (ba_totalPages (bookAnalysis gapOpts)))))
                   (Finite 120))
          \<and> (\<forall>x. estimatedReadingMinutes (ba_chapters ?upd ! 1) = Finite x \<longrightarrow> is_integer x)"
    by blast
  from both [THEN conjunct1] have "estimatedReadingMinutes (ba_chapters ?upd ! 1) =
      proportionalMinutes 100 119 120"
    by (simp only: sp ep tp proportionalMinutes_def)
  then have v: "estimatedReadingMinutes (ba_chapters ?upd ! 1) = Finite 20"
    by (simp only: twenty_pages_of_120)
  with both [THEN conjunct2] have int20: "is_integer 20" by blast
  from e u l1 l2 sp ep tp v int20
  have c4: "\<exists>res upd. editCoursePlan closingEnv gapOpts = Inr res
          \<and> updatedBookAnalysis res = Some upd
          \<and> length (ba_chapters (bookAnalysis gapOpts)) = 1
          \<and> length (ba_chapters upd) = 2
          \<and> startPage (ba_chapters upd ! 1) = 100 \<and> endPage (ba_chapters upd ! 1) = 119
          \<and> ba_totalPages (bookAnalysis gapOpts) = 120
          \<and> estimatedReadingMinutes (ba_chapters upd ! 1) = Finite 20
          \<and> is_integer 20"
    by (intro exI conjI)
  from c1 c2 c3 c4 show ?thesis by (intro conjI)
qed

text \<open>
  C6 as stated wants a positive integer everywhere. A one-page chapter discovered in
  a 300-page book gets \<open>round(1 / 300 * 120) = 0\<close> minutes, and a generation call
  that returns 12.5 minutes has that value kept by \<^verbatim>\<open>analyzeChapter\<close>.
\<close>

theorem reading_minutes_counterexample:
  "editCoursePlan appendixEnv longBookOpts =
     Inr \<lparr>updatedPlan = \<lparr>plan_title = ''Logic'', plan_description = ''A course'',
                          estimatedHours = 10, units = []\<rparr>,
          updatedBookAnalysis =
            Some \<lparr>ba_title = ''Logic'', ba_author = None, ba_totalPages = 300,
                  ba_chapters =
                    [firstChapter,
                     \<lparr>title = ''Appendix'', startPage = 299, endPage = 299, chapterNumber = 2,
                      summary = ''Tables'', keyConcepts = [], learningObjectives = [],
                      prerequisites = [], estimatedReadingMinutes = Finite 0\<rparr>],
                  ba_detectionMethod = FixedChunks\<rparr>,
          explanation = ''Merged.''\<rparr>
   \<and> analyzeChapter conceptEnv 1 ''Part'' ''some text'' None =
       Inr \<lparr>ins_summary = ''About sets and maps.'',
            ins_keyConcepts = [''sets'', ''maps''],
            ins_learningObjectives = [''Use sets''],
            ins_prerequisites = [],
            ins_estimatedReadingMinutes = 25 / 2\<rparr>
   \<and> \<not> is_integer (25 / 2)"
proof -
  have key: "hasApiKey appendixEnv" by (simp add: appendixEnv_def offlineEnv_def)
  have docs: "loadUserStateDocs appendixEnv (userId longBookOpts) = Inr emptyDocs"
    by (simp add: appendixEnv_def offlineEnv_def)
  have eng: "discoveryEngaged longBookOpts" by code_simp
  have new: "discoveredAnalyses (Suc 0) 300 [appendix] =
     [\<lparr>title = ''Appendix'', startPage = 299, endPage = 299, chapterNumber = 2,
       summary = ''Tables'', keyConcepts = [], learningObjectives = [],
       prerequisites = [], estimatedReadingMinutes = Finite 0\<rparr>]"
    by (simp add: discoveredAnalyses_def appendix_def one_page_of_300)
  have one: "editCoursePlan appendixEnv longBookOpts =
     Inr \<lparr>updatedPlan = \<lparr>plan_title = ''Logic'', plan_description = ''A course'',
                          estimatedHours = 10, units = []\<rparr>,
          updatedBookAnalysis =
            Some \<lparr>ba_title = ''Logic'', ba_author = None, ba_totalPages = 300,
                  ba_chapters =
                    [firstChapter,
                     \<lparr>title = ''Appendix'', startPage = 299, endPage = 299, chapterNumber = 2,
                      summary = ''Tables'', keyConcepts = [], learningObjectives = [],
                      prerequisites = [], estimatedReadingMinutes = Finite 0\<rparr>],
                  ba_detectionMethod = FixedChunks\<rparr>,
          explanation = ''Merged.''\<rparr>"
  proof -
    from editCoursePlan_cases [OF key docs] eng
    have "editCoursePlan appendixEnv longBookOpts =
            discoveryFlow appendixEnv emptyDocs longBookOpts (the (extractedPages longBookOpts))
              (lastDetectedPageOf (bookAnalysis longBookOpts))
              (ba_totalPages (bookAnalysis longBookOpts))"
      by simp
    then show ?thesis
      by (simp add: discoveryFlow_def appendixEnv_def offlineEnv_def longBookOpts_def
          gapOpts_def gapAnalysis_def planOf_def mergedReply_def new)
  qed
  have two: "analyzeChapter conceptEnv 1 ''Part'' ''some text'' None =
       Inr \<lparr>ins_summary = ''About sets and maps.'',
            ins_keyConcepts = [''sets'', ''maps''],
            ins_learningObjectives = [''Use sets''],
            ins_prerequisites = [],
            ins_estimatedReadingMinutes = 25 / 2\<rparr>"
    by (simp add: analyzeChapter_def conceptEnv_def offlineEnv_def twoConcepts_def try_catch_def)
  have "\<lfloor>25 / 2 :: rat\<rfloor> = 12" by (simp add: floor_eq_iff)
  then have three: "\<not> is_integer (25 / 2)"
    by (simp add: is_integer_def)
  from one two three show ?thesis by (simp only: simp_thms)
qed

end
